theory Spec2Isabelle
  imports Main "HOL-Library.Word"
begin

section \<open>Machine types and constants\<close>

text \<open>
  The client of the BlackBone kernel driver, \<^verbatim>\<open>DriverControl.cpp\<close>, as a shallow
  embedding. Windows integer types are words of their width; a wide string is the list
  of its 16-bit characters. Handles and pointers are those of a 64-bit build.
\<close>

type_synonym DWORD = "32 word"
type_synonym ULONG = "32 word"
type_synonym NTSTATUS = "32 word"
type_synonym LSTATUS = "32 word"
type_synonym ptr_t = "64 word"
type_synonym HANDLE = "64 word"
type_synonym HKEY = "64 word"
type_synonym wchar_t = "16 word"
type_synonym wstring = "wchar_t list"

definition INVALID_HANDLE_VALUE :: HANDLE where
  "INVALID_HANDLE_VALUE = - 1"

definition STATUS_SUCCESS :: NTSTATUS where
  "STATUS_SUCCESS = 0"

definition STATUS_DEVICE_DOES_NOT_EXIST :: NTSTATUS where
  "STATUS_DEVICE_DOES_NOT_EXIST = 0xC00000C0"

text \<open>\<^verbatim>\<open>NT_SUCCESS(status)\<close>: the status, read as a signed 32-bit value, is not negative.\<close>

definition NT_SUCCESS :: "NTSTATUS \<Rightarrow> bool" where
  "NT_SUCCESS status = (0 \<le> sint status)"

definition MAX_PATH :: nat where
  "MAX_PATH = 260"

definition HKEY_LOCAL_MACHINE :: HKEY where
  "HKEY_LOCAL_MACHINE = 0xFFFFFFFF80000002"

text \<open>A wide literal \<^verbatim>\<open>L"..."\<close> of ASCII characters, and the backslash.\<close>

definition L :: "string \<Rightarrow> wstring" where
  "L s = map of_char s"

definition BSL :: wstring where
  "BSL = [0x5C]"

text \<open>
  \<^verbatim>\<open>std::wstring::c_str()\<close> read as a C string: the characters before the first NUL.
\<close>

definition c_str :: "wstring \<Rightarrow> wstring" where
  "c_str w = takeWhile (\<lambda>c. c \<noteq> 0) w"

text \<open>
  The prefix of a path in native syntax (a backslash, two question marks, a backslash),
  and the registry key under which services are registered, relative to
  \<^verbatim>\<open>HKEY_LOCAL_MACHINE\<close>.
\<close>

definition nt_prefix :: wstring where
  "nt_prefix = BSL @ L ''??'' @ BSL"

definition services_key :: wstring where
  "services_key = L ''system'' @ BSL @ L ''CurrentControlSet'' @ BSL @ L ''Services''"

definition DRIVER_SVC_NAME :: wstring where
  "DRIVER_SVC_NAME = L ''BlackBone''"

section \<open>Wire records\<close>

text \<open>
  The request and result structures are declared in the driver's header, which is not
  part of the sources; each is modelled with the fields the client code reads or writes,
  at the type of the value the code stores there. \<open>InjectType\<close> is an enumeration of
  that header and is kept as its integer value.
\<close>

datatype ioctl =
    IOCTL_BLACKBONE_MAP_MEMORY
  | IOCTL_BLACKBONE_MAP_REGION
  | IOCTL_BLACKBONE_UNMAP_MEMORY
  | IOCTL_BLACKBONE_UNMAP_REGION
  | IOCTL_BLACKBONE_DISABLE_DEP
  | IOCTL_BLACKBONE_SET_PROTECTION
  | IOCTL_BLACKBONE_GRANT_ACCESS
  | IOCTL_BLACKBONE_ALLOCATE_FREE_MEMORY
  | IOCTL_BLACKBONE_COPY_MEMORY
  | IOCTL_BLACKBONE_PROTECT_MEMORY
  | IOCTL_BLACKBONE_INJECT_DLL
  | IOCTL_BLACKBONE_MAP_DRIVER
  | IOCTL_BLACKBONE_HIDE_VAD

type_synonym InjectType = "32 word"

datatype request =
    MAP_MEMORY DWORD bool wstring
      \<comment> \<open>pid, mapSections, pipeName\<close>
  | MAP_MEMORY_REGION DWORD ptr_t "32 word"
      \<comment> \<open>pid, base, size\<close>
  | UNMAP_MEMORY DWORD
      \<comment> \<open>pid\<close>
  | UNMAP_MEMORY_REGION DWORD ptr_t "32 word"
      \<comment> \<open>pid, base, size\<close>
  | DISABLE_DEP DWORD
      \<comment> \<open>pid\<close>
  | SET_PROC_PROTECTION DWORD bool
      \<comment> \<open>pid, enable\<close>
  | HANDLE_GRANT_ACCESS DWORD "64 word" DWORD
      \<comment> \<open>pid, handle, access\<close>
  | ALLOCATE_FREE_MEMORY DWORD ptr_t ptr_t DWORD DWORD bool bool
      \<comment> \<open>pid, base, size, type, protection, allocate, physical\<close>
  | COPY_MEMORY DWORD ptr_t "64 word" ptr_t bool
      \<comment> \<open>pid, targetPtr, localbuf, size, write\<close>
  | PROTECT_MEMORY DWORD ptr_t ptr_t DWORD
      \<comment> \<open>pid, base, size, newProtection\<close>
  | INJECT_DLL wstring wstring DWORD "32 word" bool bool InjectType
      \<comment> \<open>FullDllPath, initArg, pid, initRVA, wait, unlink, type\<close>
  | MMAP_DRIVER wstring
      \<comment> \<open>FullPath\<close>
  | HIDE_VAD ptr_t "32 word" DWORD
      \<comment> \<open>base, size, pid\<close>

record MAP_MEMORY_RESULT_ENTRY =
  entry_originalPtr :: ptr_t
  entry_newPtr :: ptr_t
  entry_size :: "32 word"

record MAP_MEMORY_RESULT =
  count :: ULONG
  hostPage :: ptr_t
  targetPage :: ptr_t
  pipeHandle :: "64 word"
  entries :: "MAP_MEMORY_RESULT_ENTRY list"

record MAP_MEMORY_REGION_RESULT =
  region_originalPtr :: ptr_t
  region_newPtr :: ptr_t
  region_removedPtr :: ptr_t
  region_size :: "32 word"
  region_removedSize :: "32 word"

record ALLOCATE_FREE_MEMORY_RESULT =
  address :: ptr_t
  alloc_size :: ptr_t

text \<open>
  What a \<^verbatim>\<open>DeviceIoControl\<close> call hands back: its \<^verbatim>\<open>BOOL\<close>, the byte count it
  stores, and the content of the output buffer as the caller reads it, at each of the
  types a caller of this file passes.
\<close>

record ioctl_reply =
  res :: bool
  bytes :: DWORD
  out_sizeRequired :: ULONG
  out_MAP_MEMORY_RESULT :: MAP_MEMORY_RESULT
  out_MAP_MEMORY_REGION_RESULT :: MAP_MEMORY_REGION_RESULT
  out_ALLOCATE_FREE_MEMORY_RESULT :: ALLOCATE_FREE_MEMORY_RESULT

section \<open>The platform\<close>

datatype regtype = REG_SZ | REG_DWORD

text \<open>
  The data of a \<^verbatim>\<open>RegSetValueExW\<close> call: a NUL-terminated wide string, or raw bytes.
\<close>

datatype regdata = WideStringZ wstring | RawBytes "8 word list"

text \<open>Every call that leaves the process, in the order the calls are made.\<close>

datatype event =
    CallCreateFile HANDLE
      \<comment> \<open>the handle returned for the driver's device file\<close>
  | CallCloseHandle HANDLE
  | CallDeviceIoControl HANDLE ioctl request nat
      \<comment> \<open>handle, control code, input record, size of the output buffer in bytes\<close>
  | CallMalloc nat "64 word"
      \<comment> \<open>size, the address returned\<close>
  | CallFree "64 word"
  | CallNtLoadDriver wstring
  | CallNtUnloadDriver wstring
  | CallRegOpenKeyW HKEY wstring HKEY
      \<comment> \<open>parent key, subkey, the key handle stored\<close>
  | CallRegCreateKeyW HKEY wstring HKEY
  | CallRegSetValueExW HKEY wstring regtype regdata nat
      \<comment> \<open>key, value name, type, data, size of the data in bytes\<close>
  | CallRegCloseKey HKEY
  | CallRtlDosPathNameToNtPathName_U wstring
  | CallRtlFreeUnicodeString
  | CallInvalidParameterHandler
  | CallSetLastNtStatus NTSTATUS

text \<open>
  The platform is a parameter: what each call returns, given the calls made before it.
  The operating system version tests, the directory of the executable, the capacities
  of the string fields of the request records, the sizes of the two fixed result records
  and the C runtime's invalid-parameter handler are fixed for a run. \<open>after_dwType\<close>
  are the three bytes that follow the one-byte local \<^verbatim>\<open>dwType\<close> of
  \<^verbatim>\<open>PrepareDriverRegEntry\<close> in memory.
\<close>

record env =
  CreateFile_ret :: "event list \<Rightarrow> HANDLE"
  DeviceIoControl_ret :: "event list \<Rightarrow> HANDLE \<Rightarrow> ioctl \<Rightarrow> request \<Rightarrow> nat \<Rightarrow> ioctl_reply"
  LastNtStatus_ret :: "event list \<Rightarrow> NTSTATUS"
  malloc_ret :: "event list \<Rightarrow> nat \<Rightarrow> 64 word"
  NtLoadDriver_ret :: "event list \<Rightarrow> wstring \<Rightarrow> NTSTATUS"
  NtUnloadDriver_ret :: "event list \<Rightarrow> wstring \<Rightarrow> NTSTATUS"
  RegOpenKeyW_ret :: "event list \<Rightarrow> HKEY \<Rightarrow> wstring \<Rightarrow> LSTATUS \<times> HKEY"
  RegCreateKeyW_ret :: "event list \<Rightarrow> HKEY \<Rightarrow> wstring \<Rightarrow> LSTATUS \<times> HKEY"
  RegSetValueExW_ret :: "event list \<Rightarrow> HKEY \<Rightarrow> wstring \<Rightarrow> regtype \<Rightarrow> regdata \<Rightarrow> nat \<Rightarrow> LSTATUS"
  RtlDosPathNameToNtPathName_U_ret :: "event list \<Rightarrow> wstring \<Rightarrow> wstring option"
  IsWindows8Point1OrGreater :: bool
  IsWindows8OrGreater :: bool
  IsWindows7OrGreater :: bool
  GetExeDirectory :: wstring
  handler_returns :: bool
  after_dwType :: "8 word \<times> 8 word \<times> 8 word"
  pipeName_capacity :: nat
  FullDllPath_capacity :: nat
  initArg_capacity :: nat
  FullPath_capacity :: nat
  sizeof_MAP_MEMORY_REGION_RESULT :: nat
  sizeof_ALLOCATE_FREE_MEMORY_RESULT :: nat

text \<open>
  The object's only member, \<^verbatim>\<open>_hDriver\<close>, together with the log of the calls made.
\<close>

record state =
  hDriver :: HANDLE
  trace :: "event list"

text \<open>
  A call either returns, or the process is ended by the invalid-parameter handler, or
  the code reads memory it does not own (undefined behaviour).
\<close>

datatype 'a outcome = Returned 'a | Terminated | Undefined

definition record_event :: "event \<Rightarrow> state \<Rightarrow> state" where
  "record_event ev s = s\<lparr>trace := trace s @ [ev]\<rparr>"

definition CreateFile :: "env \<Rightarrow> state \<Rightarrow> HANDLE \<times> state" where
  "CreateFile e s =
     (let h = CreateFile_ret e (trace s) in (h, record_event (CallCreateFile h) s))"

definition CloseHandle :: "HANDLE \<Rightarrow> state \<Rightarrow> state" where
  "CloseHandle h s = record_event (CallCloseHandle h) s"

definition DeviceIoControl ::
  "env \<Rightarrow> HANDLE \<Rightarrow> ioctl \<Rightarrow> request \<Rightarrow> nat \<Rightarrow> state \<Rightarrow> ioctl_reply \<times> state" where
  "DeviceIoControl e h code inbuf outsize s =
     (DeviceIoControl_ret e (trace s) h code inbuf outsize,
      record_event (CallDeviceIoControl h code inbuf outsize) s)"

text \<open>
  \<^verbatim>\<open>LastNtStatus()\<close> reads the thread's last status; \<^verbatim>\<open>LastNtStatus(status)\<close> stores
  one and returns it.
\<close>

definition LastNtStatus :: "env \<Rightarrow> state \<Rightarrow> NTSTATUS" where
  "LastNtStatus e s = LastNtStatus_ret e (trace s)"

definition SetLastNtStatus :: "NTSTATUS \<Rightarrow> state \<Rightarrow> NTSTATUS \<times> state" where
  "SetLastNtStatus status s = (status, record_event (CallSetLastNtStatus status) s)"

definition malloc :: "env \<Rightarrow> nat \<Rightarrow> state \<Rightarrow> 64 word \<times> state" where
  "malloc e n s = (let p = malloc_ret e (trace s) n in (p, record_event (CallMalloc n p) s))"

definition free :: "64 word \<Rightarrow> state \<Rightarrow> state" where
  "free p s = record_event (CallFree p) s"

definition NtLoadDriver :: "env \<Rightarrow> wstring \<Rightarrow> state \<Rightarrow> NTSTATUS \<times> state" where
  "NtLoadDriver e regPath s =
     (NtLoadDriver_ret e (trace s) regPath, record_event (CallNtLoadDriver regPath) s)"

definition NtUnloadDriver :: "env \<Rightarrow> wstring \<Rightarrow> state \<Rightarrow> NTSTATUS \<times> state" where
  "NtUnloadDriver e regPath s =
     (NtUnloadDriver_ret e (trace s) regPath, record_event (CallNtUnloadDriver regPath) s)"

definition RegOpenKeyW :: "env \<Rightarrow> HKEY \<Rightarrow> wstring \<Rightarrow> state \<Rightarrow> (LSTATUS \<times> HKEY) \<times> state" where
  "RegOpenKeyW e parent sub s =
     (let r = RegOpenKeyW_ret e (trace s) parent sub
      in (r, record_event (CallRegOpenKeyW parent sub (snd r)) s))"

definition RegCreateKeyW :: "env \<Rightarrow> HKEY \<Rightarrow> wstring \<Rightarrow> state \<Rightarrow> (LSTATUS \<times> HKEY) \<times> state" where
  "RegCreateKeyW e parent sub s =
     (let r = RegCreateKeyW_ret e (trace s) parent sub
      in (r, record_event (CallRegCreateKeyW parent sub (snd r)) s))"

definition RegSetValueExW ::
  "env \<Rightarrow> HKEY \<Rightarrow> wstring \<Rightarrow> regtype \<Rightarrow> regdata \<Rightarrow> nat \<Rightarrow> state \<Rightarrow> LSTATUS \<times> state" where
  "RegSetValueExW e key name ty data cb s =
     (RegSetValueExW_ret e (trace s) key name ty data cb,
      record_event (CallRegSetValueExW key name ty data cb) s)"

definition RegCloseKey :: "HKEY \<Rightarrow> state \<Rightarrow> state" where
  "RegCloseKey key s = record_event (CallRegCloseKey key) s"

text \<open>
  The secure functions of the C runtime, by their documented contract. When the text
  (with its terminating NUL) does not fit the destination, or the source pointer is
  null, nothing is copied: the destination is made the empty string and the
  invalid-parameter handler is called; the caller goes on only if the handler returns.
  The value returned here is the content of the destination after the call.
\<close>

definition invalid_parameter :: "env \<Rightarrow> state \<Rightarrow> wstring outcome \<times> state" where
  "invalid_parameter e s =
     (let s1 = record_event CallInvalidParameterHandler s
      in if handler_returns e then (Returned [], s1) else (Terminated, s1))"

definition wcscpy_s :: "env \<Rightarrow> nat \<Rightarrow> wstring option \<Rightarrow> state \<Rightarrow> wstring outcome \<times> state" where
  "wcscpy_s e N src s =
     (case src of
        None \<Rightarrow> invalid_parameter e s
      | Some w \<Rightarrow> if length w < N then (Returned w, s) else invalid_parameter e s)"

definition swprintf_s :: "env \<Rightarrow> nat \<Rightarrow> wstring \<Rightarrow> state \<Rightarrow> wstring outcome \<times> state" where
  "swprintf_s e N formatted s =
     (if length formatted < N then (Returned formatted, s) else invalid_parameter e s)"

section \<open>Loading and unloading the driver\<close>

text \<open>
  The member functions of \<^verbatim>\<open>DriverControl\<close>, each taking the platform and the state
  and returning its status with the state after it. The debug output of
  \<^verbatim>\<open>BLACBONE_TRACE\<close> has no effect on either and is left out.
\<close>

definition services_registry_path :: wstring where
  "services_registry_path =
     BSL @ L ''registry'' @ BSL @ L ''machine'' @ BSL @ L ''SYSTEM'' @ BSL
       @ L ''CurrentControlSet'' @ BSL @ L ''Services'' @ BSL"

definition UnloadDriver :: "env \<Rightarrow> wstring \<Rightarrow> state \<Rightarrow> NTSTATUS \<times> state" where
  "UnloadDriver e svcName s =
     (let regPath = services_registry_path @ svcName
      in NtUnloadDriver e (c_str regPath) s)"

definition Unload :: "env \<Rightarrow> state \<Rightarrow> NTSTATUS \<times> state" where
  "Unload e s =
     (let s1 = (if hDriver s \<noteq> INVALID_HANDLE_VALUE
                then (CloseHandle (hDriver s) s)\<lparr>hDriver := INVALID_HANDLE_VALUE\<rparr>
                else s)
      in UnloadDriver e DRIVER_SVC_NAME s1)"

definition RtlDosPathNameToNtPathName_U ::
  "env \<Rightarrow> wstring \<Rightarrow> state \<Rightarrow> wstring option \<times> state" where
  "RtlDosPathNameToNtPathName_U e dosName s =
     (map_option c_str (RtlDosPathNameToNtPathName_U_ret e (trace s) dosName),
      record_event (CallRtlDosPathNameToNtPathName_U dosName) s)"

definition RtlFreeUnicodeString :: "state \<Rightarrow> state" where
  "RtlFreeUnicodeString s = record_event CallRtlFreeUnicodeString s"

text \<open>
  \<^verbatim>\<open>PrepareDriverRegEntry\<close>. The local \<^verbatim>\<open>dwType\<close> is one byte holding 1, and the
  second write passes its address with a size of four bytes.
\<close>

definition PrepareDriverRegEntry ::
  "env \<Rightarrow> wstring \<Rightarrow> wstring \<Rightarrow> state \<Rightarrow> LSTATUS outcome \<times> state" where
  "PrepareDriverRegEntry e svcName path s =
     (case swprintf_s e MAX_PATH (nt_prefix @ c_str path) s of
        (Terminated, s1) \<Rightarrow> (Terminated, s1)
      | (Undefined, s1) \<Rightarrow> (Undefined, s1)
      | (Returned wszLocalPath, s1) \<Rightarrow>
          (case RegOpenKeyW e HKEY_LOCAL_MACHINE services_key s1 of
             ((status1, key1), s2) \<Rightarrow>
               if status1 \<noteq> 0 then (Returned status1, s2)
               else
                 (case RegCreateKeyW e key1 (c_str svcName) s2 of
                    ((status2, key2), s3) \<Rightarrow>
                      if status2 \<noteq> 0 then (Returned status2, RegCloseKey key1 s3)
                      else
                        (case RegSetValueExW e key2 (L ''ImagePath'') REG_SZ
                                (WideStringZ wszLocalPath) (2 * (length wszLocalPath + 1)) s3 of
                           (status3, s4) \<Rightarrow>
                             if status3 \<noteq> 0
                             then (Returned status3, RegCloseKey key1 (RegCloseKey key2 s4))
                             else
                               (case RegSetValueExW e key2 (L ''Type'') REG_DWORD
                                       (case after_dwType e of
                                          (b1, b2, b3) \<Rightarrow> RawBytes [1, b1, b2, b3]) 4 s4 of
                                  (status4, s5) \<Rightarrow>
                                    if status4 \<noteq> 0
                                    then (Returned status4,
                                          RegCloseKey key1 (RegCloseKey key2 s5))
                                    else (Returned status4,
                                          RegCloseKey key1 (RegCloseKey key2 s5)))))))"

definition LoadDriver ::
  "env \<Rightarrow> wstring \<Rightarrow> wstring \<Rightarrow> state \<Rightarrow> NTSTATUS outcome \<times> state" where
  "LoadDriver e svcName path s =
     (case (if path \<noteq> [] then PrepareDriverRegEntry e svcName path s
            else (Returned 0, s)) of
        (Terminated, s1) \<Rightarrow> (Terminated, s1)
      | (Undefined, s1) \<Rightarrow> (Undefined, s1)
      | (Returned prepared, s1) \<Rightarrow>
          if path \<noteq> [] \<and> prepared \<noteq> 0 then (Returned (LastNtStatus e s1), s1)
          else
            (let regPath = services_registry_path @ svcName
             in case NtLoadDriver e (c_str regPath) s1 of
                  (status, s2) \<Rightarrow> (Returned status, s2)))"

text \<open>The file name \<open>Reload\<close> picks when it is given no path.\<close>

definition default_filename :: "env \<Rightarrow> wstring" where
  "default_filename e =
     (if IsWindows8Point1OrGreater e then L ''BlackBoneDrv81.sys''
      else if IsWindows8OrGreater e then L ''BlackBoneDrv8.sys''
      else if IsWindows7OrGreater e then L ''BlackBoneDrv7.sys''
      else L ''BlackBoneDrv.sys'')"

definition Reload :: "env \<Rightarrow> wstring \<Rightarrow> state \<Rightarrow> NTSTATUS outcome \<times> state" where
  "Reload e path s =
     (let s1 = snd (Unload e s);
          path1 = (if path = [] then GetExeDirectory e @ BSL @ default_filename e else path)
      in case LoadDriver e DRIVER_SVC_NAME path1 s1 of
           (Terminated, s2) \<Rightarrow> (Terminated, s2)
         | (Undefined, s2) \<Rightarrow> (Undefined, s2)
         | (Returned status, s2) \<Rightarrow>
             if \<not> NT_SUCCESS status
             then (case SetLastNtStatus status s2 of (st, s3) \<Rightarrow> (Returned st, s3))
             else
               (case CreateFile e s2 of
                  (h, s3) \<Rightarrow>
                    let s4 = s3\<lparr>hDriver := h\<rparr>
                    in if h = INVALID_HANDLE_VALUE then (Returned (LastNtStatus e s4), s4)
                       else (Returned STATUS_SUCCESS, s4)))"

definition EnsureLoaded :: "env \<Rightarrow> wstring \<Rightarrow> state \<Rightarrow> NTSTATUS outcome \<times> state" where
  "EnsureLoaded e path s =
     (if hDriver s \<noteq> INVALID_HANDLE_VALUE then (Returned STATUS_SUCCESS, s)
      else
        (case CreateFile e s of
           (h, s1) \<Rightarrow>
             let s2 = s1\<lparr>hDriver := h\<rparr>
             in if h \<noteq> INVALID_HANDLE_VALUE then (Returned STATUS_SUCCESS, s2)
                else Reload e path s2))"

section \<open>Commands\<close>

text \<open>
  The caller's result structures. \<open>regions\<close> is a \<^verbatim>\<open>std::map\<close> from (original
  address, size) to the new address; \<^verbatim>\<open>emplace\<close> inserts only where the key is absent.
\<close>

type_synonym mapMemoryMap = "(ptr_t \<times> 32 word) \<rightharpoonup> ptr_t"

record MapMemoryResult =
  hostSharedPage :: ptr_t
  targetSharedPage :: ptr_t
  targetPipe :: HANDLE
  regions :: mapMemoryMap

record MapMemoryRegionResult =
  originalPtr :: ptr_t
  newPtr :: ptr_t
  removedPtr :: ptr_t
  size' :: "32 word"
  removedSize :: "32 word"

definition emplace :: "'k \<Rightarrow> 'v \<Rightarrow> ('k \<rightharpoonup> 'v) \<Rightarrow> ('k \<rightharpoonup> 'v)" where
  "emplace k v m = (if m k = None then m(k \<mapsto> v) else m)"

text \<open>
  The loop of \<open>MapMemory\<close> over \<^verbatim>\<open>pResult->entries[i]\<close> for \<open>i < count\<close>, from index
  \<open>i\<close> on. An index past the entries the buffer holds is a read outside it: \<open>None\<close>.
\<close>

function emplace_entries :: "MAP_MEMORY_RESULT \<Rightarrow> nat \<Rightarrow> mapMemoryMap \<Rightarrow> mapMemoryMap option" where
  "emplace_entries r i m =
     (if i < unat (count r) then
        (if i < length (entries r) then
           emplace_entries r (Suc i)
             (emplace (entry_originalPtr (entries r ! i), entry_size (entries r ! i))
                (entry_newPtr (entries r ! i)) m)
         else None)
      else Some m)"
  by pat_completeness auto
termination
  by (relation "measure (\<lambda>(r, i, m). unat (count r) - i)") auto

declare emplace_entries.simps [simp del]

definition MapMemory ::
  "env \<Rightarrow> DWORD \<Rightarrow> wstring \<Rightarrow> bool \<Rightarrow> MapMemoryResult \<Rightarrow> state
     \<Rightarrow> NTSTATUS outcome \<times> MapMemoryResult \<times> state" where
  "MapMemory e pid pipeName mapSections result s =
     (if hDriver s = INVALID_HANDLE_VALUE
      then (Returned STATUS_DEVICE_DOES_NOT_EXIST, result, s)
      else
        (case wcscpy_s e (pipeName_capacity e) (Some (c_str pipeName)) s of
           (Terminated, s1) \<Rightarrow> (Terminated, result, s1)
         | (Undefined, s1) \<Rightarrow> (Undefined, result, s1)
         | (Returned data_pipeName, s1) \<Rightarrow>
             (let data = MAP_MEMORY pid mapSections data_pipeName
              in case DeviceIoControl e (hDriver s1) IOCTL_BLACKBONE_MAP_MEMORY data 4 s1 of
                   (r1, s2) \<Rightarrow>
                     if res r1 \<and> bytes r1 = 4 then
                       (let sizeRequired = out_sizeRequired r1
                        in case malloc e (unat sizeRequired) s2 of
                             (pResult, s3) \<Rightarrow>
                               (case DeviceIoControl e (hDriver s3) IOCTL_BLACKBONE_MAP_MEMORY
                                       data (unat sizeRequired) s3 of
                                  (r2, s4) \<Rightarrow>
                                    if res r2 then
                                      (if pResult = 0 then (Undefined, result, s4)
                                       else
                                         (case emplace_entries (out_MAP_MEMORY_RESULT r2) 0
                                                 (regions result) of
                                            None \<Rightarrow> (Undefined, result, s4)
                                          | Some regs \<Rightarrow>
                                              (Returned STATUS_SUCCESS,
                                               result\<lparr>regions := regs,
                                                 hostSharedPage :=
                                                   hostPage (out_MAP_MEMORY_RESULT r2),
                                                 targetSharedPage :=
                                                   targetPage (out_MAP_MEMORY_RESULT r2),
                                                 targetPipe :=
                                                   pipeHandle (out_MAP_MEMORY_RESULT r2)\<rparr>,
                                               free pResult s4)))
                                    else (Returned (LastNtStatus e s4), result, s4)))
                     else (Returned (LastNtStatus e s2), result, s2))))"

definition MapMemoryRegion ::
  "env \<Rightarrow> DWORD \<Rightarrow> ptr_t \<Rightarrow> 32 word \<Rightarrow> MapMemoryRegionResult \<Rightarrow> state
     \<Rightarrow> NTSTATUS outcome \<times> MapMemoryRegionResult \<times> state" where
  "MapMemoryRegion e pid base sz result s =
     (if hDriver s = INVALID_HANDLE_VALUE
      then (Returned STATUS_DEVICE_DOES_NOT_EXIST, result, s)
      else
        (let data = MAP_MEMORY_REGION pid base sz
         in case DeviceIoControl e (hDriver s) IOCTL_BLACKBONE_MAP_REGION data
                   (sizeof_MAP_MEMORY_REGION_RESULT e) s of
              (r, s1) \<Rightarrow>
                if res r then
                  (let mapResult = out_MAP_MEMORY_REGION_RESULT r
                   in (Returned STATUS_SUCCESS,
                       result\<lparr>newPtr := region_newPtr mapResult,
                         originalPtr := region_originalPtr mapResult,
                         removedPtr := region_removedPtr mapResult,
                         removedSize := region_removedSize mapResult,
                         size' := region_size mapResult\<rparr>,
                       s1))
                else (Returned (LastNtStatus e s1), result, s1)))"

definition UnmapMemory :: "env \<Rightarrow> DWORD \<Rightarrow> state \<Rightarrow> NTSTATUS outcome \<times> state" where
  "UnmapMemory e pid s =
     (let data = UNMAP_MEMORY pid
      in if hDriver s = INVALID_HANDLE_VALUE
         then (Returned STATUS_DEVICE_DOES_NOT_EXIST, s)
         else
           (case DeviceIoControl e (hDriver s) IOCTL_BLACKBONE_UNMAP_MEMORY data 0 s of
              (r, s1) \<Rightarrow>
                if res r then (Returned STATUS_SUCCESS, s1)
                else (Returned (LastNtStatus e s1), s1)))"

definition UnmapMemoryRegion ::
  "env \<Rightarrow> DWORD \<Rightarrow> ptr_t \<Rightarrow> 32 word \<Rightarrow> state \<Rightarrow> NTSTATUS outcome \<times> state" where
  "UnmapMemoryRegion e pid base sz s =
     (let data = UNMAP_MEMORY_REGION pid base sz
      in if hDriver s = INVALID_HANDLE_VALUE
         then (Returned STATUS_DEVICE_DOES_NOT_EXIST, s)
         else
           (case DeviceIoControl e (hDriver s) IOCTL_BLACKBONE_UNMAP_REGION data 0 s of
              (r, s1) \<Rightarrow>
                if \<not> res r then (Returned (LastNtStatus e s1), s1)
                else (Returned STATUS_SUCCESS, s1)))"

definition DisableDEP :: "env \<Rightarrow> DWORD \<Rightarrow> state \<Rightarrow> NTSTATUS outcome \<times> state" where
  "DisableDEP e pid s =
     (let disableDep = DISABLE_DEP pid
      in if hDriver s = INVALID_HANDLE_VALUE
         then (Returned STATUS_DEVICE_DOES_NOT_EXIST, s)
         else
           (case DeviceIoControl e (hDriver s) IOCTL_BLACKBONE_DISABLE_DEP disableDep 0 s of
              (r, s1) \<Rightarrow>
                if \<not> res r then (Returned (LastNtStatus e s1), s1)
                else (Returned STATUS_SUCCESS, s1)))"

definition ProtectProcess :: "env \<Rightarrow> DWORD \<Rightarrow> bool \<Rightarrow> state \<Rightarrow> NTSTATUS outcome \<times> state" where
  "ProtectProcess e pid enable s =
     (let setProt = SET_PROC_PROTECTION pid enable
      in if hDriver s = INVALID_HANDLE_VALUE
         then (Returned STATUS_DEVICE_DOES_NOT_EXIST, s)
         else
           (case DeviceIoControl e (hDriver s) IOCTL_BLACKBONE_SET_PROTECTION setProt 0 s of
              (r, s1) \<Rightarrow>
                if \<not> res r then (Returned (LastNtStatus e s1), s1)
                else (Returned STATUS_SUCCESS, s1)))"

definition PromoteHandle ::
  "env \<Rightarrow> DWORD \<Rightarrow> HANDLE \<Rightarrow> DWORD \<Rightarrow> state \<Rightarrow> NTSTATUS outcome \<times> state" where
  "PromoteHandle e pid handle access s =
     (let grantAccess = HANDLE_GRANT_ACCESS pid handle access
      in if hDriver s = INVALID_HANDLE_VALUE
         then (Returned STATUS_DEVICE_DOES_NOT_EXIST, s)
         else
           (case DeviceIoControl e (hDriver s) IOCTL_BLACKBONE_GRANT_ACCESS grantAccess 0 s of
              (r, s1) \<Rightarrow>
                if \<not> res r then (Returned (LastNtStatus e s1), s1)
                else (Returned STATUS_SUCCESS, s1)))"

text \<open>
  \<open>AllocateMem\<close> takes \<open>base\<close> and \<open>size\<close> by reference; the model returns their values
  on return after the status.
\<close>

definition AllocateMem ::
  "env \<Rightarrow> DWORD \<Rightarrow> ptr_t \<Rightarrow> ptr_t \<Rightarrow> DWORD \<Rightarrow> DWORD \<Rightarrow> bool \<Rightarrow> state
     \<Rightarrow> NTSTATUS outcome \<times> ptr_t \<times> ptr_t \<times> state" where
  "AllocateMem e pid base sz ty protection physical s =
     (let allocMem = ALLOCATE_FREE_MEMORY pid base sz ty protection True physical
      in if hDriver s = INVALID_HANDLE_VALUE
         then (Returned STATUS_DEVICE_DOES_NOT_EXIST, base, sz, s)
         else
           (case DeviceIoControl e (hDriver s) IOCTL_BLACKBONE_ALLOCATE_FREE_MEMORY allocMem
                   (sizeof_ALLOCATE_FREE_MEMORY_RESULT e) s of
              (r, s1) \<Rightarrow>
                if \<not> res r then (Returned (LastNtStatus e s1), 0, 0, s1)
                else
                  (let result = out_ALLOCATE_FREE_MEMORY_RESULT r
                   in (Returned STATUS_SUCCESS, address result, alloc_size result, s1))))"

definition FreeMem ::
  "env \<Rightarrow> DWORD \<Rightarrow> ptr_t \<Rightarrow> ptr_t \<Rightarrow> DWORD \<Rightarrow> state \<Rightarrow> NTSTATUS outcome \<times> state" where
  "FreeMem e pid base sz ty s =
     (let freeMem = ALLOCATE_FREE_MEMORY pid base sz ty 0 False False
      in if hDriver s = INVALID_HANDLE_VALUE
         then (Returned STATUS_DEVICE_DOES_NOT_EXIST, s)
         else
           (case DeviceIoControl e (hDriver s) IOCTL_BLACKBONE_ALLOCATE_FREE_MEMORY freeMem
                   (sizeof_ALLOCATE_FREE_MEMORY_RESULT e) s of
              (r, s1) \<Rightarrow>
                if \<not> res r then (Returned (LastNtStatus e s1), s1)
                else (Returned STATUS_SUCCESS, s1)))"

definition ReadMem ::
  "env \<Rightarrow> DWORD \<Rightarrow> ptr_t \<Rightarrow> ptr_t \<Rightarrow> 64 word \<Rightarrow> state \<Rightarrow> NTSTATUS outcome \<times> state" where
  "ReadMem e pid base sz buffer s =
     (let copyMem = COPY_MEMORY pid base buffer sz False
      in if hDriver s = INVALID_HANDLE_VALUE
         then (Returned STATUS_DEVICE_DOES_NOT_EXIST, s)
         else
           (case DeviceIoControl e (hDriver s) IOCTL_BLACKBONE_COPY_MEMORY copyMem 0 s of
              (r, s1) \<Rightarrow>
                if \<not> res r then (Returned (LastNtStatus e s1), s1)
                else (Returned STATUS_SUCCESS, s1)))"

definition WriteMem ::
  "env \<Rightarrow> DWORD \<Rightarrow> ptr_t \<Rightarrow> ptr_t \<Rightarrow> 64 word \<Rightarrow> state \<Rightarrow> NTSTATUS outcome \<times> state" where
  "WriteMem e pid base sz buffer s =
     (let copyMem = COPY_MEMORY pid base buffer sz True
      in if hDriver s = INVALID_HANDLE_VALUE
         then (Returned STATUS_DEVICE_DOES_NOT_EXIST, s)
         else
           (case DeviceIoControl e (hDriver s) IOCTL_BLACKBONE_COPY_MEMORY copyMem 0 s of
              (r, s1) \<Rightarrow>
                if \<not> res r then (Returned (LastNtStatus e s1), s1)
                else (Returned STATUS_SUCCESS, s1)))"

definition ProtectMem ::
  "env \<Rightarrow> DWORD \<Rightarrow> ptr_t \<Rightarrow> ptr_t \<Rightarrow> DWORD \<Rightarrow> state \<Rightarrow> NTSTATUS outcome \<times> state" where
  "ProtectMem e pid base sz protection s =
     (let protectMem = PROTECT_MEMORY pid base sz protection
      in if hDriver s = INVALID_HANDLE_VALUE
         then (Returned STATUS_DEVICE_DOES_NOT_EXIST, s)
         else
           (case DeviceIoControl e (hDriver s) IOCTL_BLACKBONE_PROTECT_MEMORY protectMem 0 s of
              (r, s1) \<Rightarrow>
                if \<not> res r then (Returned (LastNtStatus e s1), s1)
                else (Returned STATUS_SUCCESS, s1)))"

definition InjectDll ::
  "env \<Rightarrow> DWORD \<Rightarrow> wstring \<Rightarrow> InjectType \<Rightarrow> 32 word \<Rightarrow> wstring \<Rightarrow> bool \<Rightarrow> bool \<Rightarrow> state
     \<Rightarrow> NTSTATUS outcome \<times> state" where
  "InjectDll e pid path itype initRVA initArg unlink wait s =
     (if hDriver s = INVALID_HANDLE_VALUE
      then (Returned STATUS_DEVICE_DOES_NOT_EXIST, s)
      else
        (case wcscpy_s e (FullDllPath_capacity e) (Some (c_str path)) s of
           (Terminated, s1) \<Rightarrow> (Terminated, s1)
         | (Undefined, s1) \<Rightarrow> (Undefined, s1)
         | (Returned data_FullDllPath, s1) \<Rightarrow>
             (case wcscpy_s e (initArg_capacity e) (Some (c_str initArg)) s1 of
                (Terminated, s2) \<Rightarrow> (Terminated, s2)
              | (Undefined, s2) \<Rightarrow> (Undefined, s2)
              | (Returned data_initArg, s2) \<Rightarrow>
                  (let data = INJECT_DLL data_FullDllPath data_initArg pid initRVA wait
                                unlink itype
                   in case DeviceIoControl e (hDriver s2) IOCTL_BLACKBONE_INJECT_DLL
                             data 0 s2 of
                        (r, s3) \<Rightarrow>
                          if \<not> res r then (Returned (LastNtStatus e s3), s3)
                          else (Returned STATUS_SUCCESS, s3)))))"

definition MMapDriver :: "env \<Rightarrow> wstring \<Rightarrow> state \<Rightarrow> NTSTATUS outcome \<times> state" where
  "MMapDriver e path s =
     (if hDriver s = INVALID_HANDLE_VALUE
      then (Returned STATUS_DEVICE_DOES_NOT_EXIST, s)
      else
        (case RtlDosPathNameToNtPathName_U e (c_str path) s of
           (ustr_Buffer, s1) \<Rightarrow>
             (case wcscpy_s e (FullPath_capacity e) ustr_Buffer s1 of
                (Terminated, s2) \<Rightarrow> (Terminated, s2)
              | (Undefined, s2) \<Rightarrow> (Undefined, s2)
              | (Returned data_FullPath, s2) \<Rightarrow>
                  (let s3 = RtlFreeUnicodeString s2;
                       data = MMAP_DRIVER data_FullPath
                   in case DeviceIoControl e (hDriver s3) IOCTL_BLACKBONE_MAP_DRIVER
                             data 0 s3 of
                        (r, s4) \<Rightarrow>
                          if \<not> res r then (Returned (LastNtStatus e s4), s4)
                          else (Returned STATUS_SUCCESS, s4)))))"

definition ConcealVAD ::
  "env \<Rightarrow> DWORD \<Rightarrow> ptr_t \<Rightarrow> 32 word \<Rightarrow> state \<Rightarrow> NTSTATUS outcome \<times> state" where
  "ConcealVAD e pid base sz s =
     (let hideVAD = HIDE_VAD base sz pid
      in if hDriver s = INVALID_HANDLE_VALUE
         then (Returned STATUS_DEVICE_DOES_NOT_EXIST, s)
         else
           (case DeviceIoControl e (hDriver s) IOCTL_BLACKBONE_HIDE_VAD hideVAD 0 s of
              (r, s1) \<Rightarrow>
                if \<not> res r then (Returned (LastNtStatus e s1), s1)
                else (Returned STATUS_SUCCESS, s1)))"

section \<open>The public interface as one type\<close>

text \<open>
  The fifteen commands with their arguments, and the three lifecycle operations, so
  that a statement can range over all of them. \<open>call\<close> and \<open>perform\<close> run the
  operation named and keep the status and the state.
\<close>

datatype command =
    Do_MapMemory DWORD wstring bool MapMemoryResult
  | Do_MapMemoryRegion DWORD ptr_t "32 word" MapMemoryRegionResult
  | Do_UnmapMemory DWORD
  | Do_UnmapMemoryRegion DWORD ptr_t "32 word"
  | Do_DisableDEP DWORD
  | Do_ProtectProcess DWORD bool
  | Do_PromoteHandle DWORD HANDLE DWORD
  | Do_AllocateMem DWORD ptr_t ptr_t DWORD DWORD bool
  | Do_FreeMem DWORD ptr_t ptr_t DWORD
  | Do_ReadMem DWORD ptr_t ptr_t "64 word"
  | Do_WriteMem DWORD ptr_t ptr_t "64 word"
  | Do_ProtectMem DWORD ptr_t ptr_t DWORD
  | Do_InjectDll DWORD wstring InjectType "32 word" wstring bool bool
  | Do_MMapDriver wstring
  | Do_ConcealVAD DWORD ptr_t "32 word"

fun call :: "env \<Rightarrow> command \<Rightarrow> state \<Rightarrow> NTSTATUS outcome \<times> state" where
  "call e (Do_MapMemory pid pipeName mapSections result) s =
     (case MapMemory e pid pipeName mapSections result s of (st, _, s1) \<Rightarrow> (st, s1))"
| "call e (Do_MapMemoryRegion pid base sz result) s =
     (case MapMemoryRegion e pid base sz result s of (st, _, s1) \<Rightarrow> (st, s1))"
| "call e (Do_UnmapMemory pid) s = UnmapMemory e pid s"
| "call e (Do_UnmapMemoryRegion pid base sz) s = UnmapMemoryRegion e pid base sz s"
| "call e (Do_DisableDEP pid) s = DisableDEP e pid s"
| "call e (Do_ProtectProcess pid enable) s = ProtectProcess e pid enable s"
| "call e (Do_PromoteHandle pid handle access) s = PromoteHandle e pid handle access s"
| "call e (Do_AllocateMem pid base sz ty protection physical) s =
     (case AllocateMem e pid base sz ty protection physical s of
        (st, _, _, s1) \<Rightarrow> (st, s1))"
| "call e (Do_FreeMem pid base sz ty) s = FreeMem e pid base sz ty s"
| "call e (Do_ReadMem pid base sz buffer) s = ReadMem e pid base sz buffer s"
| "call e (Do_WriteMem pid base sz buffer) s = WriteMem e pid base sz buffer s"
| "call e (Do_ProtectMem pid base sz protection) s = ProtectMem e pid base sz protection s"
| "call e (Do_InjectDll pid path itype initRVA initArg unlink wait) s =
     InjectDll e pid path itype initRVA initArg unlink wait s"
| "call e (Do_MMapDriver path) s = MMapDriver e path s"
| "call e (Do_ConcealVAD pid base sz) s = ConcealVAD e pid base sz s"

datatype operation =
    Do_EnsureLoaded wstring
  | Do_Reload wstring
  | Do_Unload
  | Do_Command command

fun perform :: "env \<Rightarrow> operation \<Rightarrow> state \<Rightarrow> NTSTATUS outcome \<times> state" where
  "perform e (Do_EnsureLoaded path) s = EnsureLoaded e path s"
| "perform e (Do_Reload path) s = Reload e path s"
| "perform e Do_Unload s = (case Unload e s of (st, s1) \<Rightarrow> (Returned st, s1))"
| "perform e (Do_Command c) s = call e c s"

section \<open>Observations on the log\<close>

fun is_CloseHandle :: "event \<Rightarrow> bool" where
  "is_CloseHandle (CallCloseHandle h) = True"
| "is_CloseHandle ev = False"

fun is_DeviceIoControl :: "event \<Rightarrow> bool" where
  "is_DeviceIoControl (CallDeviceIoControl h code inbuf outsize) = True"
| "is_DeviceIoControl ev = False"

fun is_RegSetValueExW :: "event \<Rightarrow> bool" where
  "is_RegSetValueExW (CallRegSetValueExW key name ty data cb) = True"
| "is_RegSetValueExW ev = False"

fun is_InvalidParameterHandler :: "event \<Rightarrow> bool" where
  "is_InvalidParameterHandler CallInvalidParameterHandler = True"
| "is_InvalidParameterHandler ev = False"

text \<open>How often a log called the invalid-parameter handler of the C runtime.\<close>

definition handler_calls :: "event list \<Rightarrow> nat" where
  "handler_calls tr = length (filter is_InvalidParameterHandler tr)"

text \<open>The number of round trips on the device-control channel that a log holds.\<close>

definition round_trips :: "event list \<Rightarrow> nat" where
  "round_trips tr = length (filter is_DeviceIoControl tr)"

text \<open>
  The handles the process holds after a log: those \<^verbatim>\<open>CreateFile\<close> returned (other
  than the failure value) and \<^verbatim>\<open>CloseHandle\<close> has not closed since.
\<close>

fun handle_step :: "HANDLE list \<Rightarrow> event \<Rightarrow> HANDLE list" where
  "handle_step hs (CallCreateFile h) = (if h = INVALID_HANDLE_VALUE then hs else h # hs)"
| "handle_step hs (CallCloseHandle h) = remove1 h hs"
| "handle_step hs ev = hs"

definition open_handles :: "event list \<Rightarrow> HANDLE list" where
  "open_handles tr = foldl handle_step [] tr"

text \<open>The heap buffers alive after a log: allocated and not freed since.\<close>

fun buffer_step :: "64 word list \<Rightarrow> event \<Rightarrow> 64 word list" where
  "buffer_step ps (CallMalloc n p) = (if p = 0 then ps else p # ps)"
| "buffer_step ps (CallFree p) = remove1 p ps"
| "buffer_step ps ev = ps"

definition live_buffers :: "event list \<Rightarrow> 64 word list" where
  "live_buffers tr = foldl buffer_step [] tr"

text \<open>
  The state invariant of the handle: the process holds exactly the handle the member
  stores, and none when the member is the not-loaded sentinel.
\<close>

definition handle_inv :: "state \<Rightarrow> bool" where
  "handle_inv s =
     (open_handles (trace s) =
        (if hDriver s = INVALID_HANDLE_VALUE then [] else [hDriver s]))"

text \<open>The requests a log sent to the driver, in order.\<close>

fun request_of :: "event \<Rightarrow> request option" where
  "request_of (CallDeviceIoControl h code inbuf outsize) = Some inbuf"
| "request_of ev = None"

definition issued_requests :: "event list \<Rightarrow> request list" where
  "issued_requests tr = List.map_filter request_of tr"

text \<open>The calls a run added to the log of the state it started in.\<close>

definition new_calls :: "state \<Rightarrow> state \<Rightarrow> event list" where
  "new_calls s s' = drop (length (trace s)) (trace s')"

text \<open>
  The two round trips of \<open>MapMemory\<close> started in state \<open>s\<close> with request \<open>req\<close>, named:
  the probe call and the platform's answer to it, the size and the address of the
  buffer allocated from that answer, and the fetch call and its answer.
\<close>

definition probe_call :: "state \<Rightarrow> request \<Rightarrow> event" where
  "probe_call s req = CallDeviceIoControl (hDriver s) IOCTL_BLACKBONE_MAP_MEMORY req 4"

definition probe_answer :: "env \<Rightarrow> state \<Rightarrow> request \<Rightarrow> ioctl_reply" where
  "probe_answer e s req =
     DeviceIoControl_ret e (trace s) (hDriver s) IOCTL_BLACKBONE_MAP_MEMORY req 4"

definition buffer_size :: "env \<Rightarrow> state \<Rightarrow> request \<Rightarrow> nat" where
  "buffer_size e s req = unat (out_sizeRequired (probe_answer e s req))"

definition buffer_addr :: "env \<Rightarrow> state \<Rightarrow> request \<Rightarrow> 64 word" where
  "buffer_addr e s req = malloc_ret e (trace s @ [probe_call s req]) (buffer_size e s req)"

definition fetch_call :: "env \<Rightarrow> state \<Rightarrow> request \<Rightarrow> event" where
  "fetch_call e s req =
     CallDeviceIoControl (hDriver s) IOCTL_BLACKBONE_MAP_MEMORY req (buffer_size e s req)"

definition fetch_answer :: "env \<Rightarrow> state \<Rightarrow> request \<Rightarrow> ioctl_reply" where
  "fetch_answer e s req =
     DeviceIoControl_ret e
       (trace s @ [probe_call s req, CallMalloc (buffer_size e s req) (buffer_addr e s req)])
       (hDriver s) IOCTL_BLACKBONE_MAP_MEMORY req (buffer_size e s req)"

text \<open>The key under which an entry of the driver's answer is stored in \<open>regions\<close>.\<close>

definition entry_key :: "MAP_MEMORY_RESULT_ENTRY \<Rightarrow> ptr_t \<times> 32 word" where
  "entry_key en = (entry_originalPtr en, entry_size en)"

section \<open>Scenarios\<close>

text \<open>
  Concrete platforms and states on which the theorems below are instantiated. On
  \<open>quiet_platform\<close> no driver is present and every call fails; \<open>running_platform\<close> has
  the driver's device, a registry that accepts every call and a loader that succeeds.
\<close>

definition failed_reply :: ioctl_reply where
  "failed_reply =
     \<lparr>res = False, bytes = 0, out_sizeRequired = 0,
      out_MAP_MEMORY_RESULT =
        \<lparr>count = 0, hostPage = 0, targetPage = 0, pipeHandle = 0, entries = []\<rparr>,
      out_MAP_MEMORY_REGION_RESULT =
        \<lparr>region_originalPtr = 0, region_newPtr = 0, region_removedPtr = 0,
         region_size = 0, region_removedSize = 0\<rparr>,
      out_ALLOCATE_FREE_MEMORY_RESULT = \<lparr>address = 0, alloc_size = 0\<rparr>\<rparr>"

definition quiet_platform :: env where
  "quiet_platform =
     \<lparr>CreateFile_ret = (\<lambda>tr. INVALID_HANDLE_VALUE),
      DeviceIoControl_ret = (\<lambda>tr h code inbuf outsize. failed_reply),
      LastNtStatus_ret = (\<lambda>tr. 0xC0000001),
      malloc_ret = (\<lambda>tr n. 0x2000),
      NtLoadDriver_ret = (\<lambda>tr regPath. 0xC0000034),
      NtUnloadDriver_ret = (\<lambda>tr regPath. 0xC0000034),
      RegOpenKeyW_ret = (\<lambda>tr parent sub. (5, 0)),
      RegCreateKeyW_ret = (\<lambda>tr parent sub. (5, 0)),
      RegSetValueExW_ret = (\<lambda>tr key name ty data cb. 5),
      RtlDosPathNameToNtPathName_U_ret = (\<lambda>tr dosName. None),
      IsWindows8Point1OrGreater = False,
      IsWindows8OrGreater = False,
      IsWindows7OrGreater = True,
      GetExeDirectory = L ''C:'',
      handler_returns = True,
      after_dwType = (0xCC, 0xCC, 0xCC),
      pipeName_capacity = 32,
      FullDllPath_capacity = 512,
      initArg_capacity = 512,
      FullPath_capacity = 512,
      sizeof_MAP_MEMORY_REGION_RESULT = 32,
      sizeof_ALLOCATE_FREE_MEMORY_RESULT = 16\<rparr>"

definition running_platform :: env where
  "running_platform =
     quiet_platform
       \<lparr>CreateFile_ret := (\<lambda>tr. 0x44),
        NtLoadDriver_ret := (\<lambda>tr regPath. 0),
        NtUnloadDriver_ret := (\<lambda>tr regPath. 0),
        RegOpenKeyW_ret := (\<lambda>tr parent sub. (0, 0x11)),
        RegCreateKeyW_ret := (\<lambda>tr parent sub. (0, 0x22)),
        RegSetValueExW_ret := (\<lambda>tr key name ty data cb. 0),
        RtlDosPathNameToNtPathName_U_ret := (\<lambda>tr dosName. Some (BSL @ L ''??'' @ BSL @ dosName))\<rparr>"

text \<open>
  A driver that answers the probe of \<open>MapMemory\<close> with a size of 88 bytes and the
  fetch with the entries given, and one whose fetch fails.
\<close>

definition probe_ok :: ioctl_reply where
  "probe_ok = failed_reply\<lparr>res := True, bytes := 4, out_sizeRequired := 88\<rparr>"

definition fetch_ok :: "MAP_MEMORY_RESULT_ENTRY list \<Rightarrow> ioctl_reply" where
  "fetch_ok es =
     failed_reply
       \<lparr>res := True, bytes := 88,
        out_MAP_MEMORY_RESULT :=
          \<lparr>count = of_nat (length es), hostPage = 0x7000, targetPage = 0x8000,
           pipeHandle = 0x9C, entries = es\<rparr>\<rparr>"

definition mapping_platform :: "MAP_MEMORY_RESULT_ENTRY list \<Rightarrow> env" where
  "mapping_platform es =
     running_platform
       \<lparr>DeviceIoControl_ret :=
          (\<lambda>tr h code inbuf outsize. if outsize = 4 then probe_ok else fetch_ok es)\<rparr>"

definition fetch_fails_platform :: env where
  "fetch_fails_platform =
     running_platform
       \<lparr>DeviceIoControl_ret :=
          (\<lambda>tr h code inbuf outsize. if outsize = 4 then probe_ok else failed_reply)\<rparr>"

text \<open>Answers of the driver: two regions, and one region reported twice.\<close>

definition two_regions :: "MAP_MEMORY_RESULT_ENTRY list" where
  "two_regions =
     [\<lparr>entry_originalPtr = 0x10000, entry_newPtr = 0xA0000, entry_size = 0x1000\<rparr>,
      \<lparr>entry_originalPtr = 0x20000, entry_newPtr = 0xB0000, entry_size = 0x2000\<rparr>]"

definition repeated_region :: "MAP_MEMORY_RESULT_ENTRY list" where
  "repeated_region =
     [\<lparr>entry_originalPtr = 0x10000, entry_newPtr = 0xA0000, entry_size = 0x1000\<rparr>,
      \<lparr>entry_originalPtr = 0x10000, entry_newPtr = 0xB0000, entry_size = 0x1000\<rparr>]"

definition not_loaded_state :: state where
  "not_loaded_state = \<lparr>hDriver = INVALID_HANDLE_VALUE, trace = []\<rparr>"

definition loaded_state :: state where
  "loaded_state = \<lparr>hDriver = 0x44, trace = [CallCreateFile 0x44]\<rparr>"

definition empty_result :: MapMemoryResult where
  "empty_result =
     \<lparr>hostSharedPage = 0, targetSharedPage = 0, targetPipe = 0, regions = Map.empty\<rparr>"

section \<open>Unload\<close>

lemma trace_record_event: "trace (record_event ev s) = trace s @ [ev]"
  by (simp add: record_event_def)

lemma hDriver_record_event: "hDriver (record_event ev s) = hDriver s"
  by (simp add: record_event_def)

lemma hDriver_Unload: "hDriver (snd (Unload e s)) = INVALID_HANDLE_VALUE"
  by (simp add: Unload_def UnloadDriver_def NtUnloadDriver_def CloseHandle_def
      hDriver_record_event Let_def)

lemma Unload_not_loaded:
  "hDriver s = INVALID_HANDLE_VALUE \<Longrightarrow>
   Unload e s =
     (NtUnloadDriver_ret e (trace s) (c_str (services_registry_path @ DRIVER_SVC_NAME)),
      record_event (CallNtUnloadDriver (c_str (services_registry_path @ DRIVER_SVC_NAME))) s)"
  by (simp add: Unload_def UnloadDriver_def NtUnloadDriver_def Let_def)

text \<open>
  Claim C5. After any call to \<open>Unload\<close> the handle is the not-loaded sentinel, whatever
  status the unload instruction reports. A second \<open>Unload\<close> right after it closes no
  handle: the only call it makes is the unload instruction for the service, whose
  status it returns.
\<close>

theorem C5_unload_twice:
  "hDriver (snd (Unload e s)) = INVALID_HANDLE_VALUE
   \<and> hDriver (snd (Unload e (snd (Unload e s)))) = INVALID_HANDLE_VALUE
   \<and> trace (snd (Unload e (snd (Unload e s))))
       = trace (snd (Unload e s))
           @ [CallNtUnloadDriver (c_str (services_registry_path @ DRIVER_SVC_NAME))]
   \<and> filter is_CloseHandle (trace (snd (Unload e (snd (Unload e s)))))
       = filter is_CloseHandle (trace (snd (Unload e s)))
   \<and> fst (Unload e (snd (Unload e s)))
       = NtUnloadDriver_ret e (trace (snd (Unload e s)))
           (c_str (services_registry_path @ DRIVER_SVC_NAME))"
proof -
  let ?s1 = "snd (Unload e s)"
  have h1: "hDriver ?s1 = INVALID_HANDLE_VALUE"
    by (rule hDriver_Unload)
  note second = Unload_not_loaded [OF h1, of e]
  show ?thesis
    using h1 by (simp add: second trace_record_event hDriver_record_event)
qed

section \<open>The commands and the handle\<close>

lemmas cmd_defs = MapMemory_def MapMemoryRegion_def UnmapMemory_def UnmapMemoryRegion_def
  DisableDEP_def ProtectProcess_def PromoteHandle_def AllocateMem_def FreeMem_def ReadMem_def
  WriteMem_def ProtectMem_def InjectDll_def MMapDriver_def ConcealVAD_def

lemmas prim_defs = DeviceIoControl_def record_event_def wcscpy_s_def invalid_parameter_def malloc_def free_def
  RtlDosPathNameToNtPathName_U_def RtlFreeUnicodeString_def

lemmas reg_defs = swprintf_s_def RegOpenKeyW_def RegCreateKeyW_def RegSetValueExW_def RegCloseKey_def

lemma call_not_loaded:
  "hDriver s = INVALID_HANDLE_VALUE \<Longrightarrow> call e c s = (Returned STATUS_DEVICE_DOES_NOT_EXIST, s)"
  by (cases c) (simp_all add: cmd_defs Let_def)

lemma open_handles_append: "open_handles (tr @ evs) = foldl handle_step (open_handles tr) evs"
  by (simp add: open_handles_def)

lemma issued_requests_simps:
  "issued_requests [] = []"
  "issued_requests (CallDeviceIoControl h code inbuf outsize # evs) = inbuf # issued_requests evs"
  "issued_requests (CallMalloc n p # evs) = issued_requests evs"
  "issued_requests (CallFree p # evs) = issued_requests evs"
  "issued_requests (CallInvalidParameterHandler # evs) = issued_requests evs"
  "issued_requests (CallRtlDosPathNameToNtPathName_U w # evs) = issued_requests evs"
  "issued_requests (CallRtlFreeUnicodeString # evs) = issued_requests evs"
  by (simp_all add: issued_requests_def List.map_filter_simps)

lemma call_handles:
  "hDriver (snd (call e c s)) = hDriver s \<and> open_handles (trace (snd (call e c s))) = open_handles (trace s)"
  apply (cases c)
  apply (simp_all add: cmd_defs Let_def prim_defs open_handles_append case_prod_beta
     split: outcome.splits option.splits if_splits)
  done

lemma PrepareDriverRegEntry_handles:
  "hDriver (snd (PrepareDriverRegEntry e svc path s)) = hDriver s
   \<and> open_handles (trace (snd (PrepareDriverRegEntry e svc path s))) = open_handles (trace s)"
  by (simp add: PrepareDriverRegEntry_def reg_defs invalid_parameter_def record_event_def Let_def
      open_handles_append case_prod_beta split: outcome.splits if_splits)

lemma LoadDriver_handles:
  "hDriver (snd (LoadDriver e svc path s)) = hDriver s
   \<and> open_handles (trace (snd (LoadDriver e svc path s))) = open_handles (trace s)"
  using PrepareDriverRegEntry_handles [of e svc path s]
  by (simp add: LoadDriver_def NtLoadDriver_def record_event_def Let_def
      open_handles_append case_prod_beta split: outcome.splits if_splits prod.splits)

lemma Unload_handles:
  "handle_inv s \<Longrightarrow>
     hDriver (snd (Unload e s)) = INVALID_HANDLE_VALUE \<and> open_handles (trace (snd (Unload e s))) = []"
  by (simp add: handle_inv_def Unload_def UnloadDriver_def NtUnloadDriver_def CloseHandle_def
      record_event_def Let_def open_handles_append split: if_splits)

lemma Reload_inv: "handle_inv s \<Longrightarrow> handle_inv (snd (Reload e path s))"
proof -
  assume inv: "handle_inv s"
  let ?s1 = "snd (Unload e s)"
  let ?p = "if path = [] then GetExeDirectory e @ BSL @ default_filename e else path"
  let ?r = "LoadDriver e DRIVER_SVC_NAME ?p ?s1"
  have u: "hDriver ?s1 = INVALID_HANDLE_VALUE" "open_handles (trace ?s1) = []"
    using Unload_handles [OF inv, of e] by simp_all
  have l: "hDriver (snd ?r) = INVALID_HANDLE_VALUE" "open_handles (trace (snd ?r)) = []"
    using LoadDriver_handles [of e DRIVER_SVC_NAME ?p ?s1] u by simp_all
  show ?thesis
    using l
    by (cases ?r; cases "fst ?r")
       (simp_all add: Reload_def Let_def handle_inv_def SetLastNtStatus_def CreateFile_def
          record_event_def open_handles_append)
qed

lemma EnsureLoaded_inv: "handle_inv s \<Longrightarrow> handle_inv (snd (EnsureLoaded e path s))"
proof (cases "hDriver s = INVALID_HANDLE_VALUE")
  case False
  assume "handle_inv s"
  with False show ?thesis by (simp add: EnsureLoaded_def)
next
  case True
  assume inv: "handle_inv s"
  let ?s2 = "(snd (CreateFile e s))\<lparr>hDriver := fst (CreateFile e s)\<rparr>"
  have inv2: "handle_inv ?s2"
    using inv True
    by (simp add: handle_inv_def CreateFile_def record_event_def Let_def open_handles_append)
  show ?thesis
    using True inv2 Reload_inv [OF inv2, of e path]
    by (cases "fst (CreateFile e s) = INVALID_HANDLE_VALUE")
       (simp_all add: EnsureLoaded_def case_prod_beta Let_def)
qed

lemma perform_inv: "handle_inv s \<Longrightarrow> handle_inv (snd (perform e op s))"
proof (cases op)
  case (Do_EnsureLoaded p)
  assume "handle_inv s"
  then show ?thesis using Do_EnsureLoaded by (simp add: EnsureLoaded_inv)
next
  case (Do_Reload p)
  assume "handle_inv s"
  then show ?thesis using Do_Reload by (simp add: Reload_inv)
next
  case Do_Unload
  assume "handle_inv s"
  then show ?thesis using Do_Unload Unload_handles [of s e]
    by (simp add: handle_inv_def case_prod_beta)
next
  case (Do_Command c)
  assume "handle_inv s"
  then show ?thesis using Do_Command call_handles [of e c s]
    by (simp add: handle_inv_def)
qed


text \<open>
  Claim C1. Every one of the fifteen commands, called while the handle is the not-loaded
  sentinel, returns \<open>STATUS_DEVICE_DOES_NOT_EXIST\<close> and leaves the state as it was:
  the log gains no call at all, so no round trip on the device-control channel is made.
\<close>

theorem C1_not_loaded:
  "hDriver s = INVALID_HANDLE_VALUE \<Longrightarrow>
     fst (call e c s) = Returned STATUS_DEVICE_DOES_NOT_EXIST
     \<and> round_trips (trace (snd (call e c s))) = round_trips (trace s)
     \<and> snd (call e c s) = s"
  by (simp add: call_not_loaded)

theorem C1_not_loaded_witness:
  "hDriver not_loaded_state = INVALID_HANDLE_VALUE
   \<and> fst (call running_platform (Do_InjectDll 4 (L ''C:x.dll'') 0 0 [] False True) not_loaded_state)
       = Returned 0xC00000C0
   \<and> round_trips (trace (snd (call running_platform
         (Do_InjectDll 4 (L ''C:x.dll'') 0 0 [] False True) not_loaded_state))) = 0"
  using C1_not_loaded [of not_loaded_state running_platform
      "Do_InjectDll 4 (L ''C:x.dll'') 0 0 [] False True"]
  by (simp add: not_loaded_state_def STATUS_DEVICE_DOES_NOT_EXIST_def round_trips_def)

text \<open>
  Claim C4. The handle invariant is kept by every public operation (\<open>EnsureLoaded\<close>,
  \<open>Reload\<close>, \<open>Unload\<close> and the fifteen commands): the process holds exactly the
  handle the member stores, or none when the member is the sentinel. So at most one
  handle is ever outstanding, and \<open>EnsureLoaded\<close> opens nothing when a handle is held:
  it returns success with the state untouched.
\<close>

theorem C4_handle_invariant:
  "handle_inv s \<Longrightarrow>
     handle_inv (snd (perform e op s))
     \<and> length (open_handles (trace (snd (perform e op s)))) \<le> 1
     \<and> (if hDriver s = INVALID_HANDLE_VALUE then open_handles (trace s) = []
        else EnsureLoaded e path s = (Returned STATUS_SUCCESS, s))"
proof -
  assume inv: "handle_inv s"
  have after: "handle_inv (snd (perform e op s))"
    using inv by (rule perform_inv)
  have "length (open_handles (trace (snd (perform e op s)))) \<le> 1"
    using after by (simp add: handle_inv_def split: if_splits)
  moreover have "if hDriver s = INVALID_HANDLE_VALUE then open_handles (trace s) = []
        else EnsureLoaded e path s = (Returned STATUS_SUCCESS, s)"
    using inv by (simp add: handle_inv_def EnsureLoaded_def)
  ultimately show ?thesis using after by simp
qed

theorem C4_handle_invariant_witness:
  "handle_inv not_loaded_state
   \<and> handle_inv (snd (perform running_platform (Do_EnsureLoaded []) not_loaded_state))
   \<and> hDriver (snd (perform running_platform (Do_EnsureLoaded []) not_loaded_state)) = 0x44
   \<and> open_handles (trace (snd (perform running_platform (Do_EnsureLoaded []) not_loaded_state))) = [0x44]"
proof -
  have inv: "handle_inv not_loaded_state"
    by (simp add: handle_inv_def not_loaded_state_def open_handles_def)
  have run: "EnsureLoaded running_platform [] not_loaded_state
      = (Returned STATUS_SUCCESS, \<lparr>hDriver = 0x44, trace = [CallCreateFile 0x44]\<rparr>)"
    by (simp add: EnsureLoaded_def CreateFile_def record_event_def not_loaded_state_def
        running_platform_def quiet_platform_def INVALID_HANDLE_VALUE_def Let_def)
  show ?thesis
    using inv C4_handle_invariant [OF inv, of running_platform "Do_EnsureLoaded []" "[]"]
    by (simp add: run open_handles_def INVALID_HANDLE_VALUE_def)
qed

section \<open>AllocateMem\<close>

text \<open>
  Claim C3, as stated, fails: a call rejected because the driver is not loaded returns a
  failure status and leaves \<open>base\<close> and \<open>size\<close> as the caller passed them.
\<close>

theorem C3_not_loaded_keeps_outputs:
  "AllocateMem quiet_platform 4 0x10000 0x2000 0x3000 4 False not_loaded_state
     = (Returned STATUS_DEVICE_DOES_NOT_EXIST, 0x10000, 0x2000, not_loaded_state)
   \<and> STATUS_DEVICE_DOES_NOT_EXIST \<noteq> STATUS_SUCCESS
   \<and> \<not> NT_SUCCESS STATUS_DEVICE_DOES_NOT_EXIST
   \<and> (0x10000 :: ptr_t) \<noteq> 0 \<and> (0x2000 :: ptr_t) \<noteq> 0"
  by (simp add: AllocateMem_def not_loaded_state_def STATUS_DEVICE_DOES_NOT_EXIST_def
      STATUS_SUCCESS_def NT_SUCCESS_def)

text \<open>
  Claim C3, amended. \<open>AllocateMem\<close> always returns a status. Called with the handle
  open, whenever that status is not success both \<open>base\<close> and \<open>size\<close> are 0 on return;
  called with the handle in the not-loaded state it returns
  \<open>STATUS_DEVICE_DOES_NOT_EXIST\<close> and leaves both as they were passed.
\<close>

theorem C3_failure_resets_outputs:
  "AllocateMem e pid base sz ty protection physical s = (st, base', sz', s') \<Longrightarrow>
     (\<exists>status. st = Returned status)
     \<and> (if hDriver s = INVALID_HANDLE_VALUE
        then st = Returned STATUS_DEVICE_DOES_NOT_EXIST \<and> base' = base \<and> sz' = sz \<and> s' = s
        else st \<noteq> Returned STATUS_SUCCESS \<longrightarrow> base' = 0 \<and> sz' = 0)"
  by (auto simp add: AllocateMem_def Let_def case_prod_beta split: if_splits)

theorem C3_failure_resets_outputs_witness:
  "AllocateMem quiet_platform 4 0x10000 0x2000 0x3000 4 False loaded_state
     = (Returned 0xC0000001, 0, 0,
        loaded_state\<lparr>trace := trace loaded_state @
          [CallDeviceIoControl 0x44 IOCTL_BLACKBONE_ALLOCATE_FREE_MEMORY
             (ALLOCATE_FREE_MEMORY 4 0x10000 0x2000 0x3000 4 True False) 16]\<rparr>)
   \<and> hDriver loaded_state \<noteq> INVALID_HANDLE_VALUE
   \<and> Returned (0xC0000001 :: NTSTATUS) \<noteq> Returned STATUS_SUCCESS"
proof -
  have run: "AllocateMem quiet_platform 4 0x10000 0x2000 0x3000 4 False loaded_state
     = (Returned 0xC0000001, 0, 0,
        loaded_state\<lparr>trace := trace loaded_state @
          [CallDeviceIoControl 0x44 IOCTL_BLACKBONE_ALLOCATE_FREE_MEMORY
             (ALLOCATE_FREE_MEMORY 4 0x10000 0x2000 0x3000 4 True False) 16]\<rparr>)"
    by (simp add: AllocateMem_def DeviceIoControl_def record_event_def LastNtStatus_def
        loaded_state_def quiet_platform_def failed_reply_def INVALID_HANDLE_VALUE_def Let_def)
  have "open": "hDriver loaded_state \<noteq> INVALID_HANDLE_VALUE"
    by (simp add: loaded_state_def INVALID_HANDLE_VALUE_def)
  show ?thesis
    using C3_failure_resets_outputs [OF run] run "open"
    by (simp add: STATUS_SUCCESS_def)
qed

section \<open>MapMemory\<close>

lemma emplace_keeps: "m k = Some v \<Longrightarrow> emplace k' v' m k = Some v"
  by (auto simp add: emplace_def)

lemma emplace_entries_fold:
  "unat (count r) = length (entries r) \<Longrightarrow>
     emplace_entries r i m
       = Some (fold (\<lambda>en. emplace (entry_key en) (entry_newPtr en)) (drop i (entries r)) m)"
proof (induction r i m rule: emplace_entries.induct)
  case (1 r i m)
  show ?case
  proof (cases "i < length (entries r)")
    case False
    with "1.prems" show ?thesis by (simp add: emplace_entries.simps)
  next
    case True
    have lt: "i < unat (count r)" using True "1.prems" by simp
    have d: "drop i (entries r) = entries r ! i # drop (Suc i) (entries r)"
      using True by (simp add: Cons_nth_drop_Suc)
    show ?thesis
      using "1.IH" [OF lt True "1.prems"] lt True
      by (subst emplace_entries.simps) (simp add: d entry_key_def)
  qed
qed

lemma fold_emplace_keeps:
  "m k = Some v \<Longrightarrow> fold (\<lambda>en. emplace (entry_key en) (entry_newPtr en)) es m k = Some v"
  by (induction es arbitrary: m) (simp_all add: emplace_keeps)

lemma dom_fold_emplace:
  "dom (fold (\<lambda>en. emplace (entry_key en) (entry_newPtr en)) es m) = dom m \<union> entry_key ` set es"
  by (induction es arbitrary: m) (auto simp add: emplace_def split: if_splits)

lemma fold_emplace_fresh:
  "distinct (map entry_key es) \<Longrightarrow> \<forall>en\<in>set es. m (entry_key en) = None \<Longrightarrow> en \<in> set es \<Longrightarrow>
     fold (\<lambda>en. emplace (entry_key en) (entry_newPtr en)) es m (entry_key en) = Some (entry_newPtr en)"
proof (induction es arbitrary: m)
  case Nil
  then show ?case by simp
next
  case (Cons a es)
  let ?m1 = "emplace (entry_key a) (entry_newPtr a) m"
  have m1: "?m1 = m(entry_key a \<mapsto> entry_newPtr a)"
    using Cons.prems(2) by (simp add: emplace_def)
  show ?case
  proof (cases "en = a")
    case True
    have "?m1 (entry_key a) = Some (entry_newPtr a)" by (simp add: m1)
    then show ?thesis using True by (simp add: fold_emplace_keeps)
  next
    case False
    with Cons.prems(3) have mem: "en \<in> set es" by simp
    have dist: "distinct (map entry_key es)" using Cons.prems(1) by simp
    have fresh: "\<forall>x\<in>set es. ?m1 (entry_key x) = None"
      using Cons.prems(1,2) by (auto simp add: m1 image_iff)
    show ?thesis using Cons.IH [OF dist fresh mem] by simp
  qed
qed

lemma MapMemory_open:
  assumes "hDriver s \<noteq> INVALID_HANDLE_VALUE" "length (c_str pipeName) < pipeName_capacity e"
  shows "MapMemory e pid pipeName mapSections result s =
    (let req = MAP_MEMORY pid mapSections (c_str pipeName);
         s2 = s\<lparr>trace := trace s @ [probe_call s req]\<rparr>;
         s4 = s\<lparr>trace := trace s @ [probe_call s req,
                  CallMalloc (buffer_size e s req) (buffer_addr e s req), fetch_call e s req]\<rparr>;
         m = out_MAP_MEMORY_RESULT (fetch_answer e s req)
     in if res (probe_answer e s req) \<and> bytes (probe_answer e s req) = 4 then
          (if res (fetch_answer e s req) then
             (if buffer_addr e s req = 0 then (Undefined, result, s4)
              else case emplace_entries m 0 (regions result) of
                     None \<Rightarrow> (Undefined, result, s4)
                   | Some regs \<Rightarrow>
                       (Returned STATUS_SUCCESS,
                        result\<lparr>regions := regs, hostSharedPage := hostPage m,
                          targetSharedPage := targetPage m, targetPipe := pipeHandle m\<rparr>,
                        s\<lparr>trace := trace s @ [probe_call s req,
                             CallMalloc (buffer_size e s req) (buffer_addr e s req),
                             fetch_call e s req, CallFree (buffer_addr e s req)]\<rparr>))
           else (Returned (LastNtStatus_ret e (trace s4)), result, s4))
        else (Returned (LastNtStatus_ret e (trace s2)), result, s2))"
  using assms
  by (simp add: MapMemory_def wcscpy_s_def DeviceIoControl_def malloc_def free_def record_event_def
      LastNtStatus_def probe_call_def probe_answer_def buffer_size_def buffer_addr_def
      fetch_call_def fetch_answer_def Let_def split: option.splits)

lemma emplace_entries_keeps:
  "emplace_entries r i m = Some m' \<Longrightarrow> m k = Some v \<Longrightarrow> m' k = Some v"
proof (induction r i m rule: emplace_entries.induct)
  case (1 r i m)
  show ?case
  proof (cases "i < unat (count r)")
    case False
    with "1.prems" show ?thesis by (simp add: emplace_entries.simps)
  next
    case True
    note lt = this
    show ?thesis
    proof (cases "i < length (entries r)")
      case False
      with lt "1.prems" show ?thesis by (simp add: emplace_entries.simps)
    next
      case True
      let ?m1 = "emplace (entry_originalPtr (entries r ! i), entry_size (entries r ! i))
                   (entry_newPtr (entries r ! i)) m"
      have step: "emplace_entries r (Suc i) ?m1 = Some m'"
        using lt True "1.prems"(1) by (subst (asm) emplace_entries.simps) simp
      have "?m1 k = Some v"
        using "1.prems"(2) by (rule emplace_keeps)
      with "1.IH" [OF lt True step] show ?thesis .
    qed
  qed
qed

lemma MapMemory_regions:
  "\<exists>r i. regions (fst (snd (MapMemory e pid pipeName mapSections result s))) = regions result
   \<or> emplace_entries r i (regions result)
        = Some (regions (fst (snd (MapMemory e pid pipeName mapSections result s))))"
  apply (simp add: MapMemory_def Let_def case_prod_beta wcscpy_s_def invalid_parameter_def
       split: outcome.splits option.splits if_splits)
  apply (auto simp add: case_prod_beta split: outcome.splits option.splits if_splits)
  done

lemma mapping_run:
  "MapMemory (mapping_platform es) 4 (L ''pipe'') False result loaded_state =
     (case emplace_entries (out_MAP_MEMORY_RESULT (fetch_ok es)) 0 (regions result) of
        None \<Rightarrow> (Undefined, result,
            loaded_state\<lparr>trace := trace loaded_state @
              [CallDeviceIoControl 0x44 IOCTL_BLACKBONE_MAP_MEMORY (MAP_MEMORY 4 False (L ''pipe'')) 4,
               CallMalloc 88 0x2000,
               CallDeviceIoControl 0x44 IOCTL_BLACKBONE_MAP_MEMORY (MAP_MEMORY 4 False (L ''pipe'')) 88]\<rparr>)
      | Some regs \<Rightarrow> (Returned STATUS_SUCCESS,
            result\<lparr>regions := regs, hostSharedPage := 0x7000, targetSharedPage := 0x8000,
              targetPipe := 0x9C\<rparr>,
            loaded_state\<lparr>trace := trace loaded_state @
              [CallDeviceIoControl 0x44 IOCTL_BLACKBONE_MAP_MEMORY (MAP_MEMORY 4 False (L ''pipe'')) 4,
               CallMalloc 88 0x2000,
               CallDeviceIoControl 0x44 IOCTL_BLACKBONE_MAP_MEMORY (MAP_MEMORY 4 False (L ''pipe'')) 88,
               CallFree 0x2000]\<rparr>))"
proof -
  have o: "hDriver loaded_state \<noteq> INVALID_HANDLE_VALUE"
    by (simp add: loaded_state_def INVALID_HANDLE_VALUE_def)
  have c: "c_str (L ''pipe'') = L ''pipe''"
    by (simp add: c_str_def L_def)
  have f: "length (c_str (L ''pipe'')) < pipeName_capacity (mapping_platform es)"
    by (simp add: c_str_def L_def mapping_platform_def running_platform_def quiet_platform_def)
  have h: "hDriver loaded_state = 0x44" by (simp add: loaded_state_def)
  have pa: "probe_answer (mapping_platform es) loaded_state (MAP_MEMORY 4 False (L ''pipe'')) = probe_ok"
    by (simp add: probe_answer_def mapping_platform_def)
  have bs: "buffer_size (mapping_platform es) loaded_state (MAP_MEMORY 4 False (L ''pipe'')) = 88"
    by (simp add: buffer_size_def pa probe_ok_def)
  have ba: "buffer_addr (mapping_platform es) loaded_state (MAP_MEMORY 4 False (L ''pipe'')) = 0x2000"
    by (simp add: buffer_addr_def mapping_platform_def running_platform_def quiet_platform_def)
  have fa: "fetch_answer (mapping_platform es) loaded_state (MAP_MEMORY 4 False (L ''pipe'')) = fetch_ok es"
    unfolding fetch_answer_def bs by (simp add: mapping_platform_def)
  show ?thesis
    unfolding MapMemory_open [OF o f] c
    by (simp add: pa bs ba fa Let_def probe_call_def fetch_call_def h probe_ok_def
        fetch_ok_def failed_reply_def split: option.splits)
qed

lemma card_entry_keys:
  "distinct (map entry_key es) \<Longrightarrow> card (entry_key ` set es) = length es"
  using distinct_card [of "map entry_key es"] by simp

lemma fold_emplace_map_add:
  "fold (\<lambda>en. emplace (entry_key en) (entry_newPtr en)) es m
     = map_of (map (\<lambda>en. (entry_key en, entry_newPtr en)) es) ++ m"
proof (induction es arbitrary: m)
  case Nil
  then show ?case by simp
next
  case (Cons a es)
  have "fold (\<lambda>en. emplace (entry_key en) (entry_newPtr en)) (a # es) m
        = fold (\<lambda>en. emplace (entry_key en) (entry_newPtr en)) es
            (emplace (entry_key a) (entry_newPtr a) m)"
    by simp
  also have "\<dots> = map_of (map (\<lambda>en. (entry_key en, entry_newPtr en)) es)
          ++ emplace (entry_key a) (entry_newPtr a) m"
    by (rule Cons.IH)
  also have "\<dots> = map_of (map (\<lambda>en. (entry_key en, entry_newPtr en)) (a # es)) ++ m"
    by (rule ext) (auto simp add: map_add_def emplace_def split: option.splits)
  finally show ?case .
qed

lemma MapMemory_general:
  assumes "hDriver s \<noteq> INVALID_HANDLE_VALUE"
  shows "MapMemory e pid pipeName mapSections result s =
    (let fits = length (c_str pipeName) < pipeName_capacity e;
         s0 = (if fits then s else record_event CallInvalidParameterHandler s);
         req = MAP_MEMORY pid mapSections (if fits then c_str pipeName else []);
         s2 = s0\<lparr>trace := trace s0 @ [probe_call s0 req]\<rparr>;
         s4 = s0\<lparr>trace := trace s0 @ [probe_call s0 req,
                  CallMalloc (buffer_size e s0 req) (buffer_addr e s0 req),
                  fetch_call e s0 req]\<rparr>;
         m = out_MAP_MEMORY_RESULT (fetch_answer e s0 req)
     in if \<not> fits \<and> \<not> handler_returns e then (Terminated, result, s0)
        else if res (probe_answer e s0 req) \<and> bytes (probe_answer e s0 req) = 4 then
          (if res (fetch_answer e s0 req) then
             (if buffer_addr e s0 req = 0 then (Undefined, result, s4)
              else case emplace_entries m 0 (regions result) of
                     None \<Rightarrow> (Undefined, result, s4)
                   | Some regs \<Rightarrow>
                       (Returned STATUS_SUCCESS,
                        result\<lparr>regions := regs, hostSharedPage := hostPage m,
                          targetSharedPage := targetPage m, targetPipe := pipeHandle m\<rparr>,
                        s0\<lparr>trace := trace s0 @ [probe_call s0 req,
                             CallMalloc (buffer_size e s0 req) (buffer_addr e s0 req),
                             fetch_call e s0 req, CallFree (buffer_addr e s0 req)]\<rparr>))
           else (Returned (LastNtStatus_ret e (trace s4)), result, s4))
        else (Returned (LastNtStatus_ret e (trace s2)), result, s2))"
proof (cases "length (c_str pipeName) < pipeName_capacity e")
  case True
  show ?thesis
    unfolding MapMemory_open [OF assms True] using True by (simp add: Let_def)
next
  case False
  show ?thesis
    using assms False
    by (simp add: MapMemory_def wcscpy_s_def invalid_parameter_def DeviceIoControl_def
      malloc_def free_def record_event_def
      LastNtStatus_def probe_call_def probe_answer_def buffer_size_def buffer_addr_def
      fetch_call_def fetch_answer_def Let_def split: option.splits)
qed

lemma new_calls_ext: "new_calls s (s\<lparr>trace := trace s @ evs\<rparr>) = evs"
  by (simp add: new_calls_def)

lemma new_calls_handler:
  "new_calls s ((record_event CallInvalidParameterHandler s)
       \<lparr>trace := trace (record_event CallInvalidParameterHandler s) @ evs\<rparr>)
     = CallInvalidParameterHandler # evs"
  by (simp add: new_calls_def record_event_def)

text \<open>
  Claim C2, amended. Called with the handle open, \<open>MapMemory\<close> sends the pipe name
  as it is when it fits its field; when it does not fit, the name sent is empty if the
  invalid-parameter handler returns, and no round trip is made if it does not. In the
  first two cases the call first probes with an output buffer of four bytes, and makes
  the second round trip, with the same request, exactly when the probe succeeds and
  reports four bytes. When the buffer is allocated and the fetch succeeds with \<open>N\<close>
  entries, the call succeeds and frees the buffer; the map returned is the caller's map
  extended by the fetched entries, where a key already present keeps its value and of
  two fetched entries with one key the first stays; the shared pages and the pipe
  handle are those of the fetch answer. So when the fetched keys are pairwise distinct
  and absent from the caller's map each is mapped to its new address, and the map has
  exactly \<open>N\<close> entries when it was passed empty.
\<close>

theorem C2_two_phase:
  assumes "hDriver s \<noteq> INVALID_HANDLE_VALUE"
    and "MapMemory e pid pipeName mapSections result s = (st, result', s')"
  shows "let fits = length (c_str pipeName) < pipeName_capacity e;
             s0 = (if fits then s else record_event CallInvalidParameterHandler s);
             req = MAP_MEMORY pid mapSections (if fits then c_str pipeName else []);
             probe = probe_answer e s0 req;
             fetch = fetch_answer e s0 req;
             m = out_MAP_MEMORY_RESULT fetch
         in (\<not> fits \<and> \<not> handler_returns e \<longrightarrow>
               st = Terminated \<and> result' = result \<and> round_trips (new_calls s s') = 0)
          \<and> (fits \<or> handler_returns e \<longrightarrow>
               take 1 (new_calls s0 s') = [probe_call s0 req]
             \<and> round_trips (new_calls s s') = (if res probe \<and> bytes probe = 4 then 2 else 1)
             \<and> issued_requests (new_calls s s')
                 = (if res probe \<and> bytes probe = 4 then [req, req] else [req])
             \<and> (res probe \<and> bytes probe = 4 \<and> buffer_addr e s0 req \<noteq> 0 \<and> res fetch
                  \<and> unat (count m) = length (entries m)
                \<longrightarrow> st = Returned STATUS_SUCCESS
                  \<and> new_calls s0 s'
                      = [probe_call s0 req,
                         CallMalloc (buffer_size e s0 req) (buffer_addr e s0 req),
                         fetch_call e s0 req, CallFree (buffer_addr e s0 req)]
                  \<and> regions result'
                      = map_of (map (\<lambda>en. (entry_key en, entry_newPtr en)) (entries m))
                          ++ regions result
                  \<and> dom (regions result')
                      = dom (regions result) \<union> entry_key ` set (entries m)
                  \<and> (\<forall>k\<in>dom (regions result). regions result' k = regions result k)
                  \<and> hostSharedPage result' = hostPage m
                  \<and> targetSharedPage result' = targetPage m
                  \<and> targetPipe result' = pipeHandle m
                  \<and> (distinct (map entry_key (entries m))
                       \<and> (\<forall>en\<in>set (entries m). regions result (entry_key en) = None)
                     \<longrightarrow> (\<forall>en\<in>set (entries m).
                            regions result' (entry_key en) = Some (entry_newPtr en)))
                  \<and> (distinct (map entry_key (entries m)) \<and> regions result = Map.empty
                     \<longrightarrow> card (dom (regions result')) = length (entries m))))"
proof -
  define fits where "fits = (length (c_str pipeName) < pipeName_capacity e)"
  define s0 where "s0 = (if fits then s else record_event CallInvalidParameterHandler s)"
  define req where "req = MAP_MEMORY pid mapSections (if fits then c_str pipeName else [])"
  define m where "m = out_MAP_MEMORY_RESULT (fetch_answer e s0 req)"
  let ?both = "res (probe_answer e s0 req) \<and> bytes (probe_answer e s0 req) = 4"
  note run = assms(2) [unfolded MapMemory_general [OF assms(1)] Let_def, folded fits_def,
      folded s0_def, folded req_def, folded m_def]
  have pre: "new_calls s (s0\<lparr>trace := trace s0 @ evs\<rparr>)
      = (if fits then [] else [CallInvalidParameterHandler]) @ evs" for evs
    by (simp add: s0_def new_calls_def record_event_def)
  have pre0: "new_calls s s0 = (if fits then [] else [CallInvalidParameterHandler])"
    by (simp add: s0_def new_calls_def record_event_def)
  have stop: "st = Terminated \<and> result' = result \<and> round_trips (new_calls s s') = 0"
    if "\<not> fits \<and> \<not> handler_returns e"
  proof -
    have eqs: "st = Terminated" "result' = result" "s' = s0"
      using run that by auto
    show ?thesis
      unfolding eqs using that by (simp add: pre0 round_trips_def)
  qed
  have first: "take 1 (new_calls s0 s') = [probe_call s0 req]"
    if "fits \<or> handler_returns e"
    using run that
    by (auto simp add: new_calls_def split: if_splits option.splits)
  have trips: "round_trips (new_calls s s') = (if ?both then 2 else 1)"
    if "fits \<or> handler_returns e"
    using run that
    by (auto simp add: pre round_trips_def probe_call_def fetch_call_def
        split: if_splits option.splits)
  have reqs: "issued_requests (new_calls s s') = (if ?both then [req, req] else [req])"
    if "fits \<or> handler_returns e"
    using run that
    by (auto simp add: pre issued_requests_simps probe_call_def fetch_call_def
        split: if_splits option.splits)
  have good: "st = Returned STATUS_SUCCESS
                  \<and> new_calls s0 s'
                      = [probe_call s0 req,
                         CallMalloc (buffer_size e s0 req) (buffer_addr e s0 req),
                         fetch_call e s0 req, CallFree (buffer_addr e s0 req)]
                  \<and> regions result'
                      = map_of (map (\<lambda>en. (entry_key en, entry_newPtr en)) (entries m))
                          ++ regions result
                  \<and> dom (regions result')
                      = dom (regions result) \<union> entry_key ` set (entries m)
                  \<and> (\<forall>k\<in>dom (regions result). regions result' k = regions result k)
                  \<and> hostSharedPage result' = hostPage m
                  \<and> targetSharedPage result' = targetPage m
                  \<and> targetPipe result' = pipeHandle m
                  \<and> (distinct (map entry_key (entries m))
                       \<and> (\<forall>en\<in>set (entries m). regions result (entry_key en) = None)
                     \<longrightarrow> (\<forall>en\<in>set (entries m).
                            regions result' (entry_key en) = Some (entry_newPtr en)))
                  \<and> (distinct (map entry_key (entries m)) \<and> regions result = Map.empty
                     \<longrightarrow> card (dom (regions result')) = length (entries m))"
    if ok: "fits \<or> handler_returns e"
      and h: "?both" "buffer_addr e s0 req \<noteq> 0" "res (fetch_answer e s0 req)"
        "unat (count m) = length (entries m)"
  proof -
    let ?f = "fold (\<lambda>en. emplace (entry_key en) (entry_newPtr en)) (entries m) (regions result)"
    have loop: "emplace_entries m 0 (regions result) = Some ?f"
      using emplace_entries_fold [OF h(4), of 0 "regions result"] by simp
    have r: "st = Returned STATUS_SUCCESS"
      "result' = result\<lparr>regions := ?f, hostSharedPage := hostPage m,
          targetSharedPage := targetPage m, targetPipe := pipeHandle m\<rparr>"
      "s' = s0\<lparr>trace := trace s0 @ [probe_call s0 req,
                CallMalloc (buffer_size e s0 req) (buffer_addr e s0 req),
                fetch_call e s0 req, CallFree (buffer_addr e s0 req)]\<rparr>"
      using run ok h(1,2,3) by (auto simp add: loop)
    have reg: "regions result' = ?f" by (simp add: r(2))
    have calls: "new_calls s0 s'
                      = [probe_call s0 req,
                         CallMalloc (buffer_size e s0 req) (buffer_addr e s0 req),
                         fetch_call e s0 req, CallFree (buffer_addr e s0 req)]"
      unfolding r(3) by (rule new_calls_ext)
    have ma: "regions result'
                = map_of (map (\<lambda>en. (entry_key en, entry_newPtr en)) (entries m))
                    ++ regions result"
      by (simp add: reg fold_emplace_map_add)
    have d: "dom (regions result') = dom (regions result) \<union> entry_key ` set (entries m)"
      by (simp add: reg dom_fold_emplace)
    have old: "\<forall>k\<in>dom (regions result). regions result' k = regions result k"
      using fold_emplace_keeps [of "regions result"] by (auto simp add: reg)
    have fresh: "distinct (map entry_key (entries m))
                       \<and> (\<forall>en\<in>set (entries m). regions result (entry_key en) = None)
                     \<longrightarrow> (\<forall>en\<in>set (entries m).
                            regions result' (entry_key en) = Some (entry_newPtr en))"
      using fold_emplace_fresh [of "entries m" "regions result"] by (simp add: reg)
    have c: "distinct (map entry_key (entries m)) \<and> regions result = Map.empty
                     \<longrightarrow> card (dom (regions result')) = length (entries m)"
      using card_entry_keys [of "entries m"] by (simp add: d)
    have sc: "hostSharedPage result' = hostPage m" "targetSharedPage result' = targetPage m"
      "targetPipe result' = pipeHandle m"
      by (simp_all add: r(2))
    show ?thesis using r(1) calls ma d old sc fresh c by (intro conjI)
  qed
  show ?thesis
    unfolding Let_def fits_def [symmetric] s0_def [symmetric] req_def [symmetric]
      m_def [symmetric]
    using stop first trips reqs good by blast
qed

lemma loaded_open: "hDriver loaded_state \<noteq> INVALID_HANDLE_VALUE"
  by (simp add: loaded_state_def INVALID_HANDLE_VALUE_def)

lemma pipe_fits: "length (c_str (L ''pipe'')) < pipeName_capacity (mapping_platform es)"
  by (simp add: c_str_def L_def mapping_platform_def running_platform_def quiet_platform_def)

lemma loop_two_regions:
  "emplace_entries (out_MAP_MEMORY_RESULT (fetch_ok two_regions)) 0 Map.empty
     = Some [(0x10000, 0x1000) \<mapsto> 0xA0000, (0x20000, 0x2000) \<mapsto> 0xB0000]"
  by (subst emplace_entries_fold)
     (simp_all add: fetch_ok_def failed_reply_def two_regions_def emplace_def entry_key_def)

lemma loop_repeated_region:
  "emplace_entries (out_MAP_MEMORY_RESULT (fetch_ok repeated_region)) 0 Map.empty
     = Some [(0x10000, 0x1000) \<mapsto> 0xA0000]"
  by (subst emplace_entries_fold)
     (simp_all add: fetch_ok_def failed_reply_def repeated_region_def emplace_def entry_key_def)

lemma loop_two_regions_onto:
  "emplace_entries (out_MAP_MEMORY_RESULT (fetch_ok two_regions)) 0 [(0x10000, 0x1000) \<mapsto> 0x50000]
     = Some [(0x10000, 0x1000) \<mapsto> 0x50000, (0x20000, 0x2000) \<mapsto> 0xB0000]"
  by (subst emplace_entries_fold)
     (simp_all add: fetch_ok_def failed_reply_def two_regions_def emplace_def entry_key_def)

text \<open>
  Claim C2, as stated, fails on two counts. The probe is made with an output buffer of
  four bytes (the size of \<open>sizeRequired\<close>), not an empty one. And a fetch that
  succeeds with two entries does not always leave two entries in the map: when both
  carry the same (original address, size), the first stays and the second is dropped.
\<close>

theorem C2_probe_size_and_repeated_key:
  "MapMemory (mapping_platform repeated_region) 4 (L ''pipe'') False empty_result loaded_state =
     (Returned STATUS_SUCCESS,
      \<lparr>hostSharedPage = 0x7000, targetSharedPage = 0x8000, targetPipe = 0x9C,
       regions = [(0x10000, 0x1000) \<mapsto> 0xA0000]\<rparr>,
      loaded_state\<lparr>trace := trace loaded_state @
        [CallDeviceIoControl 0x44 IOCTL_BLACKBONE_MAP_MEMORY (MAP_MEMORY 4 False (L ''pipe'')) 4,
         CallMalloc 88 0x2000,
         CallDeviceIoControl 0x44 IOCTL_BLACKBONE_MAP_MEMORY (MAP_MEMORY 4 False (L ''pipe'')) 88,
         CallFree 0x2000]\<rparr>)
   \<and> count (out_MAP_MEMORY_RESULT (fetch_ok repeated_region)) = 2
   \<and> length (entries (out_MAP_MEMORY_RESULT (fetch_ok repeated_region))) = 2
   \<and> card (dom [(0x10000 :: ptr_t, 0x1000 :: 32 word) \<mapsto> (0xA0000 :: ptr_t)]) = 1
   \<and> [(0x10000 :: ptr_t, 0x1000 :: 32 word) \<mapsto> (0xA0000 :: ptr_t)] (0x10000, 0x1000) \<noteq> Some 0xB0000"
proof -
  have run: "MapMemory (mapping_platform repeated_region) 4 (L ''pipe'') False empty_result loaded_state =
     (Returned STATUS_SUCCESS,
      \<lparr>hostSharedPage = 0x7000, targetSharedPage = 0x8000, targetPipe = 0x9C,
       regions = [(0x10000, 0x1000) \<mapsto> 0xA0000]\<rparr>,
      loaded_state\<lparr>trace := trace loaded_state @
        [CallDeviceIoControl 0x44 IOCTL_BLACKBONE_MAP_MEMORY (MAP_MEMORY 4 False (L ''pipe'')) 4,
         CallMalloc 88 0x2000,
         CallDeviceIoControl 0x44 IOCTL_BLACKBONE_MAP_MEMORY (MAP_MEMORY 4 False (L ''pipe'')) 88,
         CallFree 0x2000]\<rparr>)"
    unfolding mapping_run by (simp add: empty_result_def loop_repeated_region)
  have rest: "count (out_MAP_MEMORY_RESULT (fetch_ok repeated_region)) = 2"
    "length (entries (out_MAP_MEMORY_RESULT (fetch_ok repeated_region))) = 2"
    by (simp_all add: fetch_ok_def failed_reply_def repeated_region_def)
  show ?thesis using run rest by simp
qed

theorem C2_two_phase_witness:
  "hDriver loaded_state \<noteq> INVALID_HANDLE_VALUE
   \<and> MapMemory (mapping_platform two_regions) 4 (L ''pipe'') False empty_result loaded_state =
     (Returned STATUS_SUCCESS,
      \<lparr>hostSharedPage = 0x7000, targetSharedPage = 0x8000, targetPipe = 0x9C,
       regions = [(0x10000, 0x1000) \<mapsto> 0xA0000, (0x20000, 0x2000) \<mapsto> 0xB0000]\<rparr>,
      loaded_state\<lparr>trace := trace loaded_state @
        [CallDeviceIoControl 0x44 IOCTL_BLACKBONE_MAP_MEMORY (MAP_MEMORY 4 False (L ''pipe'')) 4,
         CallMalloc 88 0x2000,
         CallDeviceIoControl 0x44 IOCTL_BLACKBONE_MAP_MEMORY (MAP_MEMORY 4 False (L ''pipe'')) 88,
         CallFree 0x2000]\<rparr>)
   \<and> card (dom [(0x10000 :: ptr_t, 0x1000 :: 32 word) \<mapsto> (0xA0000 :: ptr_t),
                 (0x20000, 0x2000) \<mapsto> 0xB0000]) = 2"
proof -
  let ?R = "\<lparr>hostSharedPage = 0x7000, targetSharedPage = 0x8000, targetPipe = 0x9C,
       regions = [(0x10000, 0x1000) \<mapsto> 0xA0000, (0x20000, 0x2000) \<mapsto> (0xB0000 :: ptr_t)]\<rparr>"
  let ?req = "MAP_MEMORY 4 False (c_str (L ''pipe''))"
  let ?e = "mapping_platform two_regions"
  have run: "MapMemory ?e 4 (L ''pipe'') False empty_result loaded_state =
     (Returned STATUS_SUCCESS, ?R,
      loaded_state\<lparr>trace := trace loaded_state @
        [CallDeviceIoControl 0x44 IOCTL_BLACKBONE_MAP_MEMORY (MAP_MEMORY 4 False (L ''pipe'')) 4,
         CallMalloc 88 0x2000,
         CallDeviceIoControl 0x44 IOCTL_BLACKBONE_MAP_MEMORY (MAP_MEMORY 4 False (L ''pipe'')) 88,
         CallFree 0x2000]\<rparr>)"
    unfolding mapping_run by (simp add: empty_result_def loop_two_regions)
  have pa: "probe_answer ?e loaded_state ?req = probe_ok"
    by (simp add: probe_answer_def mapping_platform_def)
  have bs: "buffer_size ?e loaded_state ?req = 88"
    by (simp add: buffer_size_def pa probe_ok_def)
  have ba: "buffer_addr ?e loaded_state ?req = 0x2000"
    by (simp add: buffer_addr_def mapping_platform_def running_platform_def quiet_platform_def)
  have fa: "fetch_answer ?e loaded_state ?req = fetch_ok two_regions"
    unfolding fetch_answer_def bs by (simp add: mapping_platform_def)
  let ?m = "out_MAP_MEMORY_RESULT (fetch_answer ?e loaded_state ?req)"
  have ante: "res (probe_answer ?e loaded_state ?req)
      \<and> bytes (probe_answer ?e loaded_state ?req) = 4
      \<and> buffer_addr ?e loaded_state ?req \<noteq> 0
      \<and> res (fetch_answer ?e loaded_state ?req)
      \<and> unat (count ?m) = length (entries ?m)"
    unfolding pa ba fa
    by (simp add: probe_ok_def fetch_ok_def failed_reply_def two_regions_def)
  have fits: "length (c_str (L ''pipe'')) < pipeName_capacity ?e \<or> handler_returns ?e"
    using pipe_fits [of two_regions] by simp
  note inst = C2_two_phase [OF loaded_open run, unfolded Let_def if_P [OF pipe_fits],
      THEN conjunct2, THEN mp, OF fits,
      THEN conjunct2, THEN conjunct2, THEN conjunct2, THEN mp, OF ante]
  have "distinct (map entry_key (entries ?m)) \<and> regions empty_result = Map.empty"
    unfolding fa
    by (simp add: fetch_ok_def failed_reply_def two_regions_def entry_key_def empty_result_def)
  then have "card (dom (regions ?R)) = length (entries ?m)"
    using inst by blast
  moreover have "length (entries ?m) = 2"
    unfolding fa by (simp add: fetch_ok_def failed_reply_def two_regions_def)
  ultimately have "card (dom (regions ?R)) = 2"
    by simp
  then show ?thesis using loaded_open run by simp
qed

text \<open>
  Claim C10. \<open>MapMemory\<close> never clears the map it is handed: after the call,
  successful or not, every entry present before is present with the value it had. In
  particular an entry fetched under a key that was already there does not replace it.
\<close>

theorem C10_existing_entries_kept:
  "regions result k = Some v \<Longrightarrow>
     regions (fst (snd (MapMemory e pid pipeName mapSections result s))) k = Some v"
  using MapMemory_regions [of e pid pipeName mapSections result s] emplace_entries_keeps
  by metis

theorem C10_existing_entries_kept_witness:
  "regions (empty_result\<lparr>regions := [(0x10000, 0x1000) \<mapsto> 0x50000]\<rparr>) (0x10000, 0x1000)
     = Some 0x50000
   \<and> MapMemory (mapping_platform two_regions) 4 (L ''pipe'') False
        (empty_result\<lparr>regions := [(0x10000, 0x1000) \<mapsto> 0x50000]\<rparr>) loaded_state =
     (Returned STATUS_SUCCESS,
      \<lparr>hostSharedPage = 0x7000, targetSharedPage = 0x8000, targetPipe = 0x9C,
       regions = [(0x10000, 0x1000) \<mapsto> 0x50000, (0x20000, 0x2000) \<mapsto> 0xB0000]\<rparr>,
      loaded_state\<lparr>trace := trace loaded_state @
        [CallDeviceIoControl 0x44 IOCTL_BLACKBONE_MAP_MEMORY (MAP_MEMORY 4 False (L ''pipe'')) 4,
         CallMalloc 88 0x2000,
         CallDeviceIoControl 0x44 IOCTL_BLACKBONE_MAP_MEMORY (MAP_MEMORY 4 False (L ''pipe'')) 88,
         CallFree 0x2000]\<rparr>)
   \<and> regions (fst (snd (MapMemory (mapping_platform two_regions) 4 (L ''pipe'') False
        (empty_result\<lparr>regions := [(0x10000, 0x1000) \<mapsto> 0x50000]\<rparr>) loaded_state)))
        (0x10000, 0x1000) = Some 0x50000"
proof -
  let ?res = "empty_result\<lparr>regions := [(0x10000, 0x1000) \<mapsto> 0x50000]\<rparr>"
  have pre: "regions ?res (0x10000, 0x1000) = Some 0x50000"
    by simp
  have run: "MapMemory (mapping_platform two_regions) 4 (L ''pipe'') False ?res loaded_state =
     (Returned STATUS_SUCCESS,
      \<lparr>hostSharedPage = 0x7000, targetSharedPage = 0x8000, targetPipe = 0x9C,
       regions = [(0x10000, 0x1000) \<mapsto> 0x50000, (0x20000, 0x2000) \<mapsto> 0xB0000]\<rparr>,
      loaded_state\<lparr>trace := trace loaded_state @
        [CallDeviceIoControl 0x44 IOCTL_BLACKBONE_MAP_MEMORY (MAP_MEMORY 4 False (L ''pipe'')) 4,
         CallMalloc 88 0x2000,
         CallDeviceIoControl 0x44 IOCTL_BLACKBONE_MAP_MEMORY (MAP_MEMORY 4 False (L ''pipe'')) 88,
         CallFree 0x2000]\<rparr>)"
    unfolding mapping_run by (simp add: empty_result_def loop_two_regions_onto)
  note kept = C10_existing_entries_kept [OF pre, of "mapping_platform two_regions" 4 "L ''pipe''"
      False loaded_state]
  show ?thesis
    using pre run kept by (intro conjI)
qed

lemma fetch_fails_run:
  "MapMemory fetch_fails_platform 4 (L ''pipe'') False empty_result loaded_state =
     (Returned 0xC0000001, empty_result,
      loaded_state\<lparr>trace := trace loaded_state @
        [CallDeviceIoControl 0x44 IOCTL_BLACKBONE_MAP_MEMORY (MAP_MEMORY 4 False (L ''pipe'')) 4,
         CallMalloc 88 0x2000,
         CallDeviceIoControl 0x44 IOCTL_BLACKBONE_MAP_MEMORY (MAP_MEMORY 4 False (L ''pipe'')) 88]\<rparr>)"
proof -
  let ?e = fetch_fails_platform
  let ?req = "MAP_MEMORY 4 False (L ''pipe'')"
  have c: "c_str (L ''pipe'') = L ''pipe''"
    by (simp add: c_str_def L_def)
  have f: "length (c_str (L ''pipe'')) < pipeName_capacity ?e"
    by (simp add: c_str_def L_def fetch_fails_platform_def running_platform_def quiet_platform_def)
  have h: "hDriver loaded_state = 0x44" by (simp add: loaded_state_def)
  have pa: "probe_answer ?e loaded_state ?req = probe_ok"
    by (simp add: probe_answer_def fetch_fails_platform_def)
  have bs: "buffer_size ?e loaded_state ?req = 88"
    by (simp add: buffer_size_def pa probe_ok_def)
  have ba: "buffer_addr ?e loaded_state ?req = 0x2000"
    by (simp add: buffer_addr_def fetch_fails_platform_def running_platform_def quiet_platform_def)
  have fa: "fetch_answer ?e loaded_state ?req = failed_reply"
    unfolding fetch_answer_def bs by (simp add: fetch_fails_platform_def)
  have last: "LastNtStatus_ret ?e = (\<lambda>tr. 0xC0000001)"
    by (simp add: fetch_fails_platform_def running_platform_def quiet_platform_def)
  show ?thesis
    unfolding MapMemory_open [OF loaded_open f] c
    by (simp add: pa bs ba fa last Let_def probe_call_def fetch_call_def h probe_ok_def
        failed_reply_def)
qed

text \<open>
  Claim C9 does not hold of the code. When the probe succeeds and the fetch fails,
  \<open>MapMemory\<close> returns the last status with the buffer it allocated still alive:
  \<^verbatim>\<open>free\<close> is called on the success path only. (On the success path no buffer
  stays alive.)
\<close>

theorem C9_fetch_failure_leaks_buffer:
  "MapMemory fetch_fails_platform 4 (L ''pipe'') False empty_result loaded_state =
     (Returned 0xC0000001, empty_result,
      loaded_state\<lparr>trace := trace loaded_state @
        [CallDeviceIoControl 0x44 IOCTL_BLACKBONE_MAP_MEMORY (MAP_MEMORY 4 False (L ''pipe'')) 4,
         CallMalloc 88 0x2000,
         CallDeviceIoControl 0x44 IOCTL_BLACKBONE_MAP_MEMORY (MAP_MEMORY 4 False (L ''pipe'')) 88]\<rparr>)
   \<and> live_buffers (trace loaded_state) = []
   \<and> live_buffers (trace (snd (snd (MapMemory fetch_fails_platform 4 (L ''pipe'') False
        empty_result loaded_state)))) = [0x2000]
   \<and> live_buffers (trace (snd (snd (MapMemory (mapping_platform two_regions) 4 (L ''pipe'') False
        empty_result loaded_state)))) = []"
  unfolding fetch_fails_run mapping_run
  by (simp add: loop_two_regions empty_result_def live_buffers_def loaded_state_def)

section \<open>Registering the service\<close>

lemma PrepareDriverRegEntry_fits:
  assumes "length (c_str path) + 4 < MAX_PATH"
  shows "PrepareDriverRegEntry e svcName path s =
    (let key1 = snd (RegOpenKeyW_ret e (trace s) HKEY_LOCAL_MACHINE services_key);
         opened = CallRegOpenKeyW HKEY_LOCAL_MACHINE services_key key1;
         key2 = snd (RegCreateKeyW_ret e (trace s @ [opened]) key1 (c_str svcName));
         created = CallRegCreateKeyW key1 (c_str svcName) key2;
         image = CallRegSetValueExW key2 (L ''ImagePath'') REG_SZ
                   (WideStringZ (nt_prefix @ c_str path))
                   (2 * (length (nt_prefix @ c_str path) + 1));
         kind = CallRegSetValueExW key2 (L ''Type'') REG_DWORD
                   (RawBytes [1, fst (after_dwType e), fst (snd (after_dwType e)),
                      snd (snd (after_dwType e))]) 4;
         st1 = fst (RegOpenKeyW_ret e (trace s) HKEY_LOCAL_MACHINE services_key);
         st2 = fst (RegCreateKeyW_ret e (trace s @ [opened]) key1 (c_str svcName));
         st3 = RegSetValueExW_ret e (trace s @ [opened, created]) key2 (L ''ImagePath'') REG_SZ
                   (WideStringZ (nt_prefix @ c_str path))
                   (2 * (length (nt_prefix @ c_str path) + 1));
         st4 = RegSetValueExW_ret e (trace s @ [opened, created, image]) key2 (L ''Type'')
                   REG_DWORD
                   (RawBytes [1, fst (after_dwType e), fst (snd (after_dwType e)),
                      snd (snd (after_dwType e))]) 4
     in if st1 \<noteq> 0 then (Returned st1, s\<lparr>trace := trace s @ [opened]\<rparr>)
        else if st2 \<noteq> 0
        then (Returned st2, s\<lparr>trace := trace s @ [opened, created, CallRegCloseKey key1]\<rparr>)
        else if st3 \<noteq> 0
        then (Returned st3,
              s\<lparr>trace := trace s @ [opened, created, image, CallRegCloseKey key2,
                                     CallRegCloseKey key1]\<rparr>)
        else (Returned st4,
              s\<lparr>trace := trace s @ [opened, created, image, kind, CallRegCloseKey key2,
                                     CallRegCloseKey key1]\<rparr>))"
proof -
  have fit: "length (nt_prefix @ c_str path) < MAX_PATH"
    using assms by (simp add: nt_prefix_def BSL_def L_def)
  show ?thesis
    unfolding PrepareDriverRegEntry_def swprintf_s_def
    using fit
    by (simp add: reg_defs record_event_def Let_def case_prod_beta)
qed

text \<open>
  Claim C7, amended. For a path whose text up to its first NUL has fewer than 256
  characters, \<open>PrepareDriverRegEntry\<close> opens the services key, creates the key named
  by the service under it, and then makes two writes to that key: \<open>ImagePath\<close>, a
  string, the path behind the native prefix, and \<open>Type\<close>, of registry type
  \<open>REG_DWORD\<close> with a size of four bytes (what those bytes are is not stated here).
  The steps are taken in this order and stop at the first that fails; its status is
  the one returned, and success is returned only when all four succeed, after exactly
  these two writes. After a failure the keys opened are closed and the calls made before
  stand: no call undoes an earlier write.
\<close>

theorem C7_registration:
  assumes "length (c_str path) + 4 < MAX_PATH"
    and "PrepareDriverRegEntry e svcName path s = (r, s')"
  shows "\<exists>data.
     (let key1 = snd (RegOpenKeyW_ret e (trace s) HKEY_LOCAL_MACHINE services_key);
          opened = CallRegOpenKeyW HKEY_LOCAL_MACHINE services_key key1;
          key2 = snd (RegCreateKeyW_ret e (trace s @ [opened]) key1 (c_str svcName));
          created = CallRegCreateKeyW key1 (c_str svcName) key2;
          image = CallRegSetValueExW key2 (L ''ImagePath'') REG_SZ
                    (WideStringZ (nt_prefix @ c_str path))
                    (2 * (length (nt_prefix @ c_str path) + 1));
          kind = CallRegSetValueExW key2 (L ''Type'') REG_DWORD data 4;
          st1 = fst (RegOpenKeyW_ret e (trace s) HKEY_LOCAL_MACHINE services_key);
          st2 = fst (RegCreateKeyW_ret e (trace s @ [opened]) key1 (c_str svcName));
          st3 = RegSetValueExW_ret e (trace s @ [opened, created]) key2 (L ''ImagePath'')
                    REG_SZ (WideStringZ (nt_prefix @ c_str path))
                    (2 * (length (nt_prefix @ c_str path) + 1));
          st4 = RegSetValueExW_ret e (trace s @ [opened, created, image]) key2 (L ''Type'')
                    REG_DWORD data 4
      in (r, new_calls s s') =
           (if st1 \<noteq> 0 then (Returned st1, [opened])
            else if st2 \<noteq> 0
            then (Returned st2, [opened, created, CallRegCloseKey key1])
            else if st3 \<noteq> 0
            then (Returned st3,
                  [opened, created, image, CallRegCloseKey key2, CallRegCloseKey key1])
            else (Returned st4,
                  [opened, created, image, kind, CallRegCloseKey key2,
                   CallRegCloseKey key1]))
         \<and> hDriver s' = hDriver s)"
  using assms(2) unfolding PrepareDriverRegEntry_fits [OF assms(1)] Let_def
  by (intro exI [of _ "RawBytes [1, fst (after_dwType e), fst (snd (after_dwType e)),
         snd (snd (after_dwType e))]"])
     (auto simp add: new_calls_def split: if_splits)

lemma c_str_L: "c_str (L ''BlackBone'') = L ''BlackBone''"
  by (simp add: c_str_def L_def)

theorem C7_registration_witness:
  "length (c_str (L ''C:'' @ BSL @ L ''drv.sys'')) + 4 < MAX_PATH
   \<and> PrepareDriverRegEntry running_platform DRIVER_SVC_NAME (L ''C:'' @ BSL @ L ''drv.sys'')
        not_loaded_state
     = (Returned 0,
        not_loaded_state\<lparr>trace :=
          [CallRegOpenKeyW HKEY_LOCAL_MACHINE services_key 0x11,
           CallRegCreateKeyW 0x11 (L ''BlackBone'') 0x22,
           CallRegSetValueExW 0x22 (L ''ImagePath'') REG_SZ
             (WideStringZ (nt_prefix @ L ''C:'' @ BSL @ L ''drv.sys'')) 30,
           CallRegSetValueExW 0x22 (L ''Type'') REG_DWORD (RawBytes [1, 0xCC, 0xCC, 0xCC]) 4,
           CallRegCloseKey 0x22, CallRegCloseKey 0x11]\<rparr>)
   \<and> take 3 (new_calls not_loaded_state
        (snd (PrepareDriverRegEntry running_platform DRIVER_SVC_NAME
               (L ''C:'' @ BSL @ L ''drv.sys'') not_loaded_state)))
     = [CallRegOpenKeyW HKEY_LOCAL_MACHINE services_key 0x11,
        CallRegCreateKeyW 0x11 (L ''BlackBone'') 0x22,
        CallRegSetValueExW 0x22 (L ''ImagePath'') REG_SZ
          (WideStringZ (nt_prefix @ L ''C:'' @ BSL @ L ''drv.sys'')) 30]"
proof -
  let ?p = "L ''C:'' @ BSL @ L ''drv.sys''"
  have c: "c_str ?p = ?p"
    by (simp add: c_str_def L_def BSL_def)
  have fits: "length (c_str ?p) + 4 < MAX_PATH"
    by (simp add: c_str_def L_def BSL_def MAX_PATH_def)
  have e: "RegOpenKeyW_ret running_platform = (\<lambda>tr parent sub. (0, 0x11))"
    "RegCreateKeyW_ret running_platform = (\<lambda>tr parent sub. (0, 0x22))"
    "RegSetValueExW_ret running_platform = (\<lambda>tr key name ty data cb. 0)"
    "after_dwType running_platform = (0xCC, 0xCC, 0xCC)"
    by (simp_all add: running_platform_def quiet_platform_def)
  have len: "2 * (length (nt_prefix @ ?p) + 1) = 30"
    by (simp add: nt_prefix_def L_def BSL_def)
  have run: "PrepareDriverRegEntry running_platform DRIVER_SVC_NAME ?p not_loaded_state
     = (Returned 0,
        not_loaded_state\<lparr>trace :=
          [CallRegOpenKeyW HKEY_LOCAL_MACHINE services_key 0x11,
           CallRegCreateKeyW 0x11 (L ''BlackBone'') 0x22,
           CallRegSetValueExW 0x22 (L ''ImagePath'') REG_SZ (WideStringZ (nt_prefix @ ?p)) 30,
           CallRegSetValueExW 0x22 (L ''Type'') REG_DWORD (RawBytes [1, 0xCC, 0xCC, 0xCC]) 4,
           CallRegCloseKey 0x22, CallRegCloseKey 0x11]\<rparr>)"
    unfolding PrepareDriverRegEntry_fits [OF fits] c e len DRIVER_SVC_NAME_def c_str_L
    by (simp add: Let_def not_loaded_state_def)
  note inst = C7_registration [OF fits run, unfolded Let_def e c len DRIVER_SVC_NAME_def c_str_L]
  have "take 3 (new_calls not_loaded_state
        (snd (PrepareDriverRegEntry running_platform DRIVER_SVC_NAME ?p not_loaded_state)))
     = [CallRegOpenKeyW HKEY_LOCAL_MACHINE services_key 0x11,
        CallRegCreateKeyW 0x11 (L ''BlackBone'') 0x22,
        CallRegSetValueExW 0x22 (L ''ImagePath'') REG_SZ (WideStringZ (nt_prefix @ ?p)) 30]"
    using inst unfolding run by auto
  then show ?thesis
    using fits run by (intro conjI)
qed

text \<open>
  Claim C7, as stated, fails for a long path. With 256 characters the prefixed text does
  not fit the local buffer of \<open>MAX_PATH\<close> characters: the secure formatting call
  leaves the buffer empty, and where the invalid-parameter handler returns, the
  registration goes on and succeeds with an empty \<open>ImagePath\<close>.
\<close>

theorem C7_long_path_writes_empty_image:
  "PrepareDriverRegEntry running_platform DRIVER_SVC_NAME (replicate 256 0x41) not_loaded_state
     = (Returned 0,
        not_loaded_state\<lparr>trace :=
          [CallInvalidParameterHandler,
           CallRegOpenKeyW HKEY_LOCAL_MACHINE services_key 0x11,
           CallRegCreateKeyW 0x11 (L ''BlackBone'') 0x22,
           CallRegSetValueExW 0x22 (L ''ImagePath'') REG_SZ (WideStringZ []) 2,
           CallRegSetValueExW 0x22 (L ''Type'') REG_DWORD (RawBytes [1, 0xCC, 0xCC, 0xCC]) 4,
           CallRegCloseKey 0x22, CallRegCloseKey 0x11]\<rparr>)
   \<and> nt_prefix @ replicate 256 0x41 \<noteq> []"
proof -
  have c: "c_str (replicate 256 (0x41 :: wchar_t)) = replicate 256 0x41"
    by (simp add: c_str_def)
  have e: "RegOpenKeyW_ret running_platform = (\<lambda>tr parent sub. (0, 0x11))"
    "RegCreateKeyW_ret running_platform = (\<lambda>tr parent sub. (0, 0x22))"
    "RegSetValueExW_ret running_platform = (\<lambda>tr key name ty data cb. 0)"
    "after_dwType running_platform = (0xCC, 0xCC, 0xCC)"
    "handler_returns running_platform"
    by (simp_all add: running_platform_def quiet_platform_def)
  have long: "\<not> length (nt_prefix @ replicate 256 (0x41 :: wchar_t)) < MAX_PATH"
    by (simp add: nt_prefix_def L_def BSL_def MAX_PATH_def)
  have "PrepareDriverRegEntry running_platform DRIVER_SVC_NAME (replicate 256 0x41) not_loaded_state
     = (Returned 0,
        not_loaded_state\<lparr>trace :=
          [CallInvalidParameterHandler,
           CallRegOpenKeyW HKEY_LOCAL_MACHINE services_key 0x11,
           CallRegCreateKeyW 0x11 (L ''BlackBone'') 0x22,
           CallRegSetValueExW 0x22 (L ''ImagePath'') REG_SZ (WideStringZ []) 2,
           CallRegSetValueExW 0x22 (L ''Type'') REG_DWORD (RawBytes [1, 0xCC, 0xCC, 0xCC]) 4,
           CallRegCloseKey 0x22, CallRegCloseKey 0x11]\<rparr>)"
    unfolding PrepareDriverRegEntry_def swprintf_s_def c DRIVER_SVC_NAME_def c_str_L
    using long
    by (simp add: invalid_parameter_def reg_defs record_event_def e Let_def not_loaded_state_def)
  moreover have "nt_prefix @ replicate 256 (0x41 :: wchar_t) \<noteq> []"
    by (simp add: nt_prefix_def BSL_def)
  ultimately show ?thesis by (intro conjI)
qed

section \<open>The default driver file\<close>

lemma names_distinct:
  "L ''BlackBoneDrv81.sys'' \<noteq> L ''BlackBoneDrv8.sys''"
  "L ''BlackBoneDrv81.sys'' \<noteq> L ''BlackBoneDrv7.sys''"
  "L ''BlackBoneDrv81.sys'' \<noteq> L ''BlackBoneDrv.sys''"
  "L ''BlackBoneDrv8.sys'' \<noteq> L ''BlackBoneDrv7.sys''"
  "L ''BlackBoneDrv8.sys'' \<noteq> L ''BlackBoneDrv.sys''"
  "L ''BlackBoneDrv7.sys'' \<noteq> L ''BlackBoneDrv.sys''"
  by (simp_all add: L_def)

lemma Unload_trace:
  "trace (snd (Unload e s)) =
     trace s @ (if hDriver s \<noteq> INVALID_HANDLE_VALUE then [CallCloseHandle (hDriver s)] else [])
       @ [CallNtUnloadDriver (c_str (services_registry_path @ DRIVER_SVC_NAME))]"
  by (simp add: Unload_def UnloadDriver_def NtUnloadDriver_def CloseHandle_def record_event_def
      Let_def)

lemma Reload_after_prepare:
  assumes "path \<noteq> []"
  shows "\<exists>evs. trace (snd (Reload e path s))
           = trace (snd (PrepareDriverRegEntry e DRIVER_SVC_NAME path (snd (Unload e s)))) @ evs
         \<and> filter is_RegSetValueExW evs = []"
proof -
  obtain r s2 where pr:
    "PrepareDriverRegEntry e DRIVER_SVC_NAME path (snd (Unload e s)) = (r, s2)"
    by (cases "PrepareDriverRegEntry e DRIVER_SVC_NAME path (snd (Unload e s))")
  show ?thesis
    using assms
    by (cases r)
       (simp_all add: Reload_def LoadDriver_def pr NtLoadDriver_def SetLastNtStatus_def
          CreateFile_def record_event_def LastNtStatus_def Let_def)
qed

lemma default_path_nonempty: "GetExeDirectory e @ BSL @ default_filename e \<noteq> []"
  by (simp add: BSL_def)

lemma Reload_empty_path:
  "Reload e [] s = Reload e (GetExeDirectory e @ BSL @ default_filename e) s"
  by (simp add: Reload_def BSL_def)

lemma Reload_first_write:
  assumes "length (c_str p) + 4 < MAX_PATH" and "p \<noteq> []"
  shows "let s1 = snd (Unload e s);
             key1 = snd (RegOpenKeyW_ret e (trace s1) HKEY_LOCAL_MACHINE services_key);
             opened = CallRegOpenKeyW HKEY_LOCAL_MACHINE services_key key1;
             key2 = snd (RegCreateKeyW_ret e (trace s1 @ [opened]) key1 (c_str DRIVER_SVC_NAME));
             st1 = fst (RegOpenKeyW_ret e (trace s1) HKEY_LOCAL_MACHINE services_key);
             st2 = fst (RegCreateKeyW_ret e (trace s1 @ [opened]) key1 (c_str DRIVER_SVC_NAME))
         in take 1 (filter is_RegSetValueExW (new_calls s (snd (Reload e p s))))
              = (if st1 = 0 \<and> st2 = 0
                 then [CallRegSetValueExW key2 (L ''ImagePath'') REG_SZ
                         (WideStringZ (nt_prefix @ c_str p))
                         (2 * (length (nt_prefix @ c_str p) + 1))]
                 else [])"
proof -
  obtain evs where ev:
    "trace (snd (Reload e p s))
       = trace (snd (PrepareDriverRegEntry e DRIVER_SVC_NAME p (snd (Unload e s)))) @ evs"
    "filter is_RegSetValueExW evs = []"
    using Reload_after_prepare [OF assms(2), of e s] by blast
  show ?thesis
    unfolding new_calls_def ev(1) PrepareDriverRegEntry_fits [OF assms(1)] Let_def
    by (simp add: Unload_trace ev(2))
qed

text \<open>
  Claim C6. With an empty path, \<open>Reload\<close> resolves the file name from the three
  version tests, newest first: it is always one of the four names, and each name is
  picked exactly under its own tier (so no two at once). \<open>Reload\<close> then runs as if
  it had been given that name in the directory of the executable, and this is the file
  it registers: where the path fits the registration buffer, the first value the call
  writes to the registry, if the service key could be opened and created, is the
  \<open>ImagePath\<close> of exactly that file; otherwise it writes none.
\<close>

theorem C6_default_path:
  "let p = GetExeDirectory e @ BSL @ default_filename e;
       s1 = snd (Unload e s);
       key1 = snd (RegOpenKeyW_ret e (trace s1) HKEY_LOCAL_MACHINE services_key);
       opened = CallRegOpenKeyW HKEY_LOCAL_MACHINE services_key key1;
       key2 = snd (RegCreateKeyW_ret e (trace s1 @ [opened]) key1 (c_str DRIVER_SVC_NAME));
       st1 = fst (RegOpenKeyW_ret e (trace s1) HKEY_LOCAL_MACHINE services_key);
       st2 = fst (RegCreateKeyW_ret e (trace s1 @ [opened]) key1 (c_str DRIVER_SVC_NAME))
   in default_filename e \<in> {L ''BlackBoneDrv81.sys'', L ''BlackBoneDrv8.sys'',
                             L ''BlackBoneDrv7.sys'', L ''BlackBoneDrv.sys''}
      \<and> (default_filename e = L ''BlackBoneDrv81.sys'') = IsWindows8Point1OrGreater e
      \<and> (default_filename e = L ''BlackBoneDrv8.sys'')
          = (\<not> IsWindows8Point1OrGreater e \<and> IsWindows8OrGreater e)
      \<and> (default_filename e = L ''BlackBoneDrv7.sys'')
          = (\<not> IsWindows8Point1OrGreater e \<and> \<not> IsWindows8OrGreater e
             \<and> IsWindows7OrGreater e)
      \<and> (default_filename e = L ''BlackBoneDrv.sys'')
          = (\<not> IsWindows8Point1OrGreater e \<and> \<not> IsWindows8OrGreater e
             \<and> \<not> IsWindows7OrGreater e)
      \<and> Reload e [] s = Reload e p s
      \<and> (length (c_str p) + 4 < MAX_PATH \<longrightarrow>
           take 1 (filter is_RegSetValueExW (new_calls s (snd (Reload e [] s))))
             = (if st1 = 0 \<and> st2 = 0
                then [CallRegSetValueExW key2 (L ''ImagePath'') REG_SZ
                        (WideStringZ (nt_prefix @ c_str p))
                        (2 * (length (nt_prefix @ c_str p) + 1))]
                else []))"
proof -
  let ?p = "GetExeDirectory e @ BSL @ default_filename e"
  have names: "default_filename e \<in> {L ''BlackBoneDrv81.sys'', L ''BlackBoneDrv8.sys'',
                             L ''BlackBoneDrv7.sys'', L ''BlackBoneDrv.sys''}
      \<and> (default_filename e = L ''BlackBoneDrv81.sys'') = IsWindows8Point1OrGreater e
      \<and> (default_filename e = L ''BlackBoneDrv8.sys'')
          = (\<not> IsWindows8Point1OrGreater e \<and> IsWindows8OrGreater e)
      \<and> (default_filename e = L ''BlackBoneDrv7.sys'')
          = (\<not> IsWindows8Point1OrGreater e \<and> \<not> IsWindows8OrGreater e
             \<and> IsWindows7OrGreater e)
      \<and> (default_filename e = L ''BlackBoneDrv.sys'')
          = (\<not> IsWindows8Point1OrGreater e \<and> \<not> IsWindows8OrGreater e
             \<and> \<not> IsWindows7OrGreater e)"
    using names_distinct names_distinct [symmetric]
    by (simp add: default_filename_def)
  have same: "Reload e [] s = Reload e ?p s"
    by (rule Reload_empty_path)
  have obs: "take 1 (filter is_RegSetValueExW (new_calls s (snd (Reload e [] s))))
             = (if fst (RegOpenKeyW_ret e (trace (snd (Unload e s))) HKEY_LOCAL_MACHINE
                       services_key) = 0
                   \<and> fst (RegCreateKeyW_ret e
                       (trace (snd (Unload e s))
                          @ [CallRegOpenKeyW HKEY_LOCAL_MACHINE services_key
                               (snd (RegOpenKeyW_ret e (trace (snd (Unload e s)))
                                  HKEY_LOCAL_MACHINE services_key))])
                       (snd (RegOpenKeyW_ret e (trace (snd (Unload e s)))
                                  HKEY_LOCAL_MACHINE services_key))
                       (c_str DRIVER_SVC_NAME)) = 0
                then [CallRegSetValueExW
                        (snd (RegCreateKeyW_ret e
                       (trace (snd (Unload e s))
                          @ [CallRegOpenKeyW HKEY_LOCAL_MACHINE services_key
                               (snd (RegOpenKeyW_ret e (trace (snd (Unload e s)))
                                  HKEY_LOCAL_MACHINE services_key))])
                       (snd (RegOpenKeyW_ret e (trace (snd (Unload e s)))
                                  HKEY_LOCAL_MACHINE services_key))
                       (c_str DRIVER_SVC_NAME)))
                        (L ''ImagePath'') REG_SZ
                        (WideStringZ (nt_prefix @ c_str ?p))
                        (2 * (length (nt_prefix @ c_str ?p) + 1))]
                else [])"
    if fits: "length (c_str ?p) + 4 < MAX_PATH"
    unfolding same
    using Reload_first_write [OF fits default_path_nonempty, of e s, unfolded Let_def] .
  show ?thesis
    unfolding Let_def using names same obs by blast
qed

theorem C6_default_path_witness:
  "length (c_str (GetExeDirectory running_platform @ BSL @ default_filename running_platform))
     + 4 < MAX_PATH
   \<and> default_filename running_platform = L ''BlackBoneDrv7.sys''
   \<and> take 1 (filter is_RegSetValueExW
        (new_calls not_loaded_state (snd (Reload running_platform [] not_loaded_state))))
      = [CallRegSetValueExW 0x22 (L ''ImagePath'') REG_SZ
           (WideStringZ (nt_prefix @ L ''C:'' @ BSL @ L ''BlackBoneDrv7.sys'')) 50]"
proof -
  let ?e = running_platform
  have df: "default_filename ?e = L ''BlackBoneDrv7.sys''"
    by (simp add: default_filename_def running_platform_def quiet_platform_def)
  have p: "GetExeDirectory ?e @ BSL @ default_filename ?e = L ''C:'' @ BSL @ L ''BlackBoneDrv7.sys''"
    unfolding df by (simp add: running_platform_def quiet_platform_def)
  have c: "c_str (L ''C:'' @ BSL @ L ''BlackBoneDrv7.sys'') = L ''C:'' @ BSL @ L ''BlackBoneDrv7.sys''"
    by (simp add: c_str_def L_def BSL_def)
  have fits: "length (c_str (GetExeDirectory ?e @ BSL @ default_filename ?e)) + 4 < MAX_PATH"
    unfolding p by (simp add: c_str_def L_def BSL_def MAX_PATH_def)
  have e: "RegOpenKeyW_ret ?e = (\<lambda>tr parent sub. (0, 0x11))"
    "RegCreateKeyW_ret ?e = (\<lambda>tr parent sub. (0, 0x22))"
    by (simp_all add: running_platform_def quiet_platform_def)
  have len: "2 * (length (nt_prefix @ L ''C:'' @ BSL @ L ''BlackBoneDrv7.sys'') + 1) = 50"
    by (simp add: nt_prefix_def L_def BSL_def)
  note inst = C6_default_path [of ?e not_loaded_state, unfolded Let_def,
      THEN conjunct2, THEN conjunct2, THEN conjunct2, THEN conjunct2, THEN conjunct2,
      THEN conjunct2, THEN mp, OF fits, unfolded p c e len]
  have "take 1 (filter is_RegSetValueExW
        (new_calls not_loaded_state (snd (Reload running_platform [] not_loaded_state))))
      = [CallRegSetValueExW 0x22 (L ''ImagePath'') REG_SZ
           (WideStringZ (nt_prefix @ L ''C:'' @ BSL @ L ''BlackBoneDrv7.sys'')) 50]"
    using inst by simp
  then show ?thesis using fits df by (intro conjI)
qed

section \<open>String fields of the request records\<close>

lemma handler_calls_simps:
  "handler_calls [] = 0"
  "handler_calls (CallInvalidParameterHandler # evs) = Suc (handler_calls evs)"
  "handler_calls (CallDeviceIoControl h code inbuf outsize # evs) = handler_calls evs"
  "handler_calls (CallMalloc n p # evs) = handler_calls evs"
  "handler_calls (CallFree p # evs) = handler_calls evs"
  "handler_calls (CallRtlDosPathNameToNtPathName_U w # evs) = handler_calls evs"
  "handler_calls (CallRtlFreeUnicodeString # evs) = handler_calls evs"
  by (simp_all add: handler_calls_def)

lemma InjectDll_requests:
  assumes "hDriver s \<noteq> INVALID_HANDLE_VALUE"
  shows "issued_requests (new_calls s (snd (InjectDll e pid path itype initRVA initArg unlink wait s))) =
      (if (length (c_str path) < FullDllPath_capacity e \<and> length (c_str initArg) < initArg_capacity e)
          \<or> handler_returns e
       then [INJECT_DLL (if length (c_str path) < FullDllPath_capacity e then c_str path else [])
               (if length (c_str initArg) < initArg_capacity e then c_str initArg else [])
               pid initRVA wait unlink itype]
       else [])
     \<and> handler_calls (new_calls s (snd (InjectDll e pid path itype initRVA initArg unlink wait s))) =
         (if length (c_str path) < FullDllPath_capacity e
          then (if length (c_str initArg) < initArg_capacity e then 0 else 1)
          else if handler_returns e
               then (if length (c_str initArg) < initArg_capacity e then 1 else 2)
               else 1)
     \<and> (fst (InjectDll e pid path itype initRVA initArg unlink wait s) = Terminated)
        = (\<not> handler_returns e
           \<and> \<not> (length (c_str path) < FullDllPath_capacity e
                \<and> length (c_str initArg) < initArg_capacity e))"
  using assms
  by (simp add: InjectDll_def prim_defs Let_def new_calls_def issued_requests_simps
      handler_calls_simps)

lemma MMapDriver_requests:
  assumes "hDriver s \<noteq> INVALID_HANDLE_VALUE"
  shows "issued_requests (new_calls s (snd (MMapDriver e path s))) =
      (case RtlDosPathNameToNtPathName_U_ret e (trace s) (c_str path) of
         Some native \<Rightarrow>
           if length (c_str native) < FullPath_capacity e \<or> handler_returns e
           then [MMAP_DRIVER (if length (c_str native) < FullPath_capacity e
                              then c_str native else [])]
           else []
       | None \<Rightarrow> if handler_returns e then [MMAP_DRIVER []] else [])
     \<and> handler_calls (new_calls s (snd (MMapDriver e path s))) =
         (case RtlDosPathNameToNtPathName_U_ret e (trace s) (c_str path) of
            Some native \<Rightarrow> if length (c_str native) < FullPath_capacity e then 0 else 1
          | None \<Rightarrow> 1)
     \<and> (fst (MMapDriver e path s) = Terminated)
        = (\<not> handler_returns e
           \<and> (case RtlDosPathNameToNtPathName_U_ret e (trace s) (c_str path) of
                Some native \<Rightarrow> \<not> length (c_str native) < FullPath_capacity e
              | None \<Rightarrow> True))"
  using assms
  by (simp add: MMapDriver_def prim_defs Let_def new_calls_def issued_requests_simps
      handler_calls_simps split: option.splits)

lemma MapMemory_requests:
  assumes "hDriver s \<noteq> INVALID_HANDLE_VALUE"
  shows "let fits = length (c_str pipeName) < pipeName_capacity e;
             s0 = (if fits then s else record_event CallInvalidParameterHandler s);
             req = MAP_MEMORY pid mapSections (if fits then c_str pipeName else []);
             probe = probe_answer e s0 req
         in issued_requests (new_calls s
              (snd (snd (MapMemory e pid pipeName mapSections result s)))) =
              (if \<not> fits \<and> \<not> handler_returns e then []
               else if res probe \<and> bytes probe = 4 then [req, req] else [req])
            \<and> handler_calls (new_calls s
                 (snd (snd (MapMemory e pid pipeName mapSections result s)))) =
                 (if fits then 0 else 1)
            \<and> (fst (MapMemory e pid pipeName mapSections result s) = Terminated)
                = (\<not> handler_returns e \<and> \<not> fits)"
proof -
  define fits where "fits = (length (c_str pipeName) < pipeName_capacity e)"
  define s0 where "s0 = (if fits then s else record_event CallInvalidParameterHandler s)"
  define req where "req = MAP_MEMORY pid mapSections (if fits then c_str pipeName else [])"
  note run = MapMemory_general [OF assms, of e pid pipeName mapSections result,
      unfolded Let_def, folded fits_def, folded s0_def, folded req_def]
  have pre: "new_calls s (s0\<lparr>trace := trace s0 @ evs\<rparr>)
      = (if fits then [] else [CallInvalidParameterHandler]) @ evs" for evs
    by (simp add: s0_def new_calls_def record_event_def)
  have pre0: "new_calls s s0 = (if fits then [] else [CallInvalidParameterHandler])"
    by (simp add: s0_def new_calls_def record_event_def)
  show ?thesis
    unfolding Let_def fits_def [symmetric] s0_def [symmetric] req_def [symmetric] run
    by (simp add: pre pre0 issued_requests_simps handler_calls_simps probe_call_def
        fetch_call_def split: option.splits)
qed

text \<open>
  Claim C8, amended. With the handle open, each string field (the pipe name of
  \<open>MapMemory\<close>, the module path and the init argument of \<open>InjectDll\<close>, the native
  driver path of \<open>MMapDriver\<close>) is filled by the secure copy: a string, read up to
  its first NUL, that is strictly shorter than the capacity of the field reaches every
  request of the call unchanged, and the invalid-parameter handler is not called for
  it. A string that is not shorter is never cut down to the capacity and never written
  past the field: when its copy is reached the invalid-parameter handler is called,
  once, and either the process ends there with no request sent (a later field of the
  same call is then never copied), or the handler returns and every request of the
  call is sent with that field empty. A failed path conversion in \<open>MMapDriver\<close>
  takes the same route.
\<close>

theorem C8_string_fields:
  assumes "hDriver s \<noteq> INVALID_HANDLE_VALUE"
  shows "(let fits = length (c_str pipeName) < pipeName_capacity e;
              s0 = (if fits then s else record_event CallInvalidParameterHandler s);
              req = MAP_MEMORY pid mapSections (if fits then c_str pipeName else []);
              probe = probe_answer e s0 req
          in issued_requests (new_calls s
               (snd (snd (MapMemory e pid pipeName mapSections result s)))) =
               (if \<not> fits \<and> \<not> handler_returns e then []
                else if res probe \<and> bytes probe = 4 then [req, req] else [req])
             \<and> handler_calls (new_calls s
                  (snd (snd (MapMemory e pid pipeName mapSections result s)))) =
                  (if fits then 0 else 1)
             \<and> (fst (MapMemory e pid pipeName mapSections result s) = Terminated)
                 = (\<not> handler_returns e \<and> \<not> fits))
     \<and> issued_requests (new_calls s
            (snd (InjectDll e pid path itype initRVA initArg unlink wait s))) =
         (if (length (c_str path) < FullDllPath_capacity e
              \<and> length (c_str initArg) < initArg_capacity e)
             \<or> handler_returns e
          then [INJECT_DLL
                  (if length (c_str path) < FullDllPath_capacity e then c_str path else [])
                  (if length (c_str initArg) < initArg_capacity e then c_str initArg else [])
                  pid initRVA wait unlink itype]
          else [])
     \<and> handler_calls (new_calls s
            (snd (InjectDll e pid path itype initRVA initArg unlink wait s))) =
         (if length (c_str path) < FullDllPath_capacity e
          then (if length (c_str initArg) < initArg_capacity e then 0 else 1)
          else if handler_returns e
               then (if length (c_str initArg) < initArg_capacity e then 1 else 2)
               else 1)
     \<and> (fst (InjectDll e pid path itype initRVA initArg unlink wait s) = Terminated)
        = (\<not> handler_returns e
           \<and> \<not> (length (c_str path) < FullDllPath_capacity e
                \<and> length (c_str initArg) < initArg_capacity e))
     \<and> issued_requests (new_calls s (snd (MMapDriver e driverPath s))) =
         (case RtlDosPathNameToNtPathName_U_ret e (trace s) (c_str driverPath) of
            Some native \<Rightarrow>
              if length (c_str native) < FullPath_capacity e \<or> handler_returns e
              then [MMAP_DRIVER (if length (c_str native) < FullPath_capacity e
                                 then c_str native else [])]
              else []
          | None \<Rightarrow> if handler_returns e then [MMAP_DRIVER []] else [])
     \<and> handler_calls (new_calls s (snd (MMapDriver e driverPath s))) =
         (case RtlDosPathNameToNtPathName_U_ret e (trace s) (c_str driverPath) of
            Some native \<Rightarrow> if length (c_str native) < FullPath_capacity e then 0 else 1
          | None \<Rightarrow> 1)
     \<and> (fst (MMapDriver e driverPath s) = Terminated)
        = (\<not> handler_returns e
           \<and> (case RtlDosPathNameToNtPathName_U_ret e (trace s) (c_str driverPath) of
                Some native \<Rightarrow> \<not> length (c_str native) < FullPath_capacity e
              | None \<Rightarrow> True))"
proof -
  note a = MapMemory_requests [OF assms, of pipeName e pid mapSections result]
  note b = InjectDll_requests [OF assms, of e pid path itype initRVA initArg unlink wait]
  note c = MMapDriver_requests [OF assms, of e driverPath]
  from a b [THEN conjunct1] b [THEN conjunct2, THEN conjunct1]
    b [THEN conjunct2, THEN conjunct2]
    c [THEN conjunct1] c [THEN conjunct2, THEN conjunct1] c [THEN conjunct2, THEN conjunct2]
  show ?thesis by (intro conjI)
qed

lemma c_str_replicate: "c_str (replicate n (0x41 :: wchar_t)) = replicate n 0x41"
  by (simp add: c_str_def)

lemma running_caps:
  "FullDllPath_capacity running_platform = 512"
  "initArg_capacity running_platform = 512"
  "pipeName_capacity running_platform = 32"
  "FullPath_capacity running_platform = 512"
  "handler_returns running_platform"
  by (simp_all add: running_platform_def quiet_platform_def)

theorem C8_string_fields_witness:
  "hDriver loaded_state \<noteq> INVALID_HANDLE_VALUE
   \<and> length (replicate 511 (0x41 :: wchar_t)) < FullDllPath_capacity running_platform
   \<and> issued_requests (new_calls loaded_state
        (snd (InjectDll running_platform 4 (replicate 511 0x41) 0 0 [] False True loaded_state)))
      = [INJECT_DLL (replicate 511 0x41) [] 4 0 True False 0]
   \<and> handler_calls (new_calls loaded_state
        (snd (InjectDll running_platform 4 (replicate 511 0x41) 0 0 [] False True loaded_state)))
      = 0"
proof -
  note inst = C8_string_fields [OF loaded_open, of "[]" running_platform 4 False empty_result
      "replicate 511 0x41" 0 0 "[]" False True "[]"]
  have "issued_requests (new_calls loaded_state
        (snd (InjectDll running_platform 4 (replicate 511 0x41) 0 0 [] False True loaded_state)))
      = [INJECT_DLL (replicate 511 0x41) [] 4 0 True False 0]"
    using inst [THEN conjunct2, THEN conjunct1]
    unfolding c_str_replicate running_caps by (simp add: c_str_def)
  moreover have "handler_calls (new_calls loaded_state
        (snd (InjectDll running_platform 4 (replicate 511 0x41) 0 0 [] False True loaded_state)))
      = 0"
    using inst [THEN conjunct2, THEN conjunct2, THEN conjunct1]
    unfolding c_str_replicate running_caps by (simp add: c_str_def)
  ultimately show ?thesis
    using loaded_open by (simp add: running_caps)
qed

text \<open>
  Claim C8, as stated, fails for a string longer than the field. A module path of 600
  characters against a capacity of 512 is not reduced to the capacity: where the
  handler returns the request goes out with an empty path, and where it does not the
  call never returns.
\<close>

theorem C8_long_string_not_truncated:
  "FullDllPath_capacity running_platform = 512
   \<and> length (replicate 600 (0x41 :: wchar_t)) = 600
   \<and> InjectDll running_platform 4 (replicate 600 0x41) 0 0 [] False True loaded_state
      = (Returned 0xC0000001,
         loaded_state\<lparr>trace := trace loaded_state @
           [CallInvalidParameterHandler,
            CallDeviceIoControl 0x44 IOCTL_BLACKBONE_INJECT_DLL
              (INJECT_DLL [] [] 4 0 True False 0) 0]\<rparr>)
   \<and> InjectDll (running_platform\<lparr>handler_returns := False\<rparr>) 4 (replicate 600 0x41) 0 0 []
        False True loaded_state
      = (Terminated, loaded_state\<lparr>trace := trace loaded_state @ [CallInvalidParameterHandler]\<rparr>)
   \<and> take 512 (replicate 600 (0x41 :: wchar_t)) \<noteq> []
   \<and> take 511 (replicate 600 (0x41 :: wchar_t)) \<noteq> []"
proof -
  have e: "DeviceIoControl_ret running_platform = (\<lambda>tr h code inbuf outsize. failed_reply)"
    "LastNtStatus_ret running_platform = (\<lambda>tr. 0xC0000001)"
    by (simp_all add: running_platform_def quiet_platform_def)
  have h: "hDriver loaded_state = 0x44" "(0x44 :: HANDLE) \<noteq> INVALID_HANDLE_VALUE"
    by (simp_all add: loaded_state_def INVALID_HANDLE_VALUE_def)
  have a: "InjectDll running_platform 4 (replicate 600 0x41) 0 0 [] False True loaded_state
      = (Returned 0xC0000001,
         loaded_state\<lparr>trace := trace loaded_state @
           [CallInvalidParameterHandler,
            CallDeviceIoControl 0x44 IOCTL_BLACKBONE_INJECT_DLL
              (INJECT_DLL [] [] 4 0 True False 0) 0]\<rparr>)"
    unfolding InjectDll_def c_str_replicate
    by (simp add: prim_defs LastNtStatus_def running_caps e h Let_def c_str_def failed_reply_def)
  have b: "InjectDll (running_platform\<lparr>handler_returns := False\<rparr>) 4 (replicate 600 0x41) 0 0 []
        False True loaded_state
      = (Terminated, loaded_state\<lparr>trace := trace loaded_state @ [CallInvalidParameterHandler]\<rparr>)"
    unfolding InjectDll_def c_str_replicate
    by (simp add: prim_defs running_caps h Let_def)
  show ?thesis
    using a b by (simp add: running_caps)
qed

end
